(* ===== verification/Prelude.thy ===== *)
theory Prelude
  imports Main
begin

text \<open>
  Shared vocabulary of the development: the JavaScript values that reach the request
  handlers of \<^verbatim>\<open>src/routes/api.js\<close> (a parsed JSON body or query string, plus
  the \<^verbatim>\<open>Date\<close> objects the handlers create themselves), JavaScript's truthiness
  test \<^verbatim>\<open>!x\<close>, and plain JavaScript objects (\<^verbatim>\<open>req.body\<close>,
  \<^verbatim>\<open>req.query\<close>) as association lists in property-insertion order, with the
  property read \<^verbatim>\<open>o[k]\<close>, the assignment \<^verbatim>\<open>o[k] = v\<close>, the
  \<^verbatim>\<open>delete o[k]\<close> statement and \<^verbatim>\<open>Object.keys\<close>. The collection
  \<open>obj_simps\<close> holds the characteristic equations the component proofs rewrite with.
\<close>

named_theorems obj_simps "characteristic equations of the JavaScript object operations"

section \<open>JavaScript values\<close>

text \<open>
  Numbers are kept as integers: the handlers only compare them with zero and hand them
  to the store's casts, and every number a JSON request carries in the fields the schema
  knows is integral in the tests. \<open>JUndef\<close> is \<^verbatim>\<open>undefined\<close>, the value of a
  missing property; \<open>JDate t\<close> is a \<^verbatim>\<open>Date\<close> with time value \<open>t\<close> (milliseconds).
\<close>

datatype jsval =
    JStr string
  | JNum int
  | JBool bool
  | JNull
  | JUndef
  | JDate int

text \<open>\<^verbatim>\<open>!x\<close> is true exactly for the falsy values \<^verbatim>\<open>''\<close>, \<^verbatim>\<open>0\<close>,
  \<^verbatim>\<open>false\<close>, \<^verbatim>\<open>null\<close> and \<^verbatim>\<open>undefined\<close>; a \<^verbatim>\<open>Date\<close> object is truthy.\<close>

fun js_truthy :: "jsval \<Rightarrow> bool" where
  "js_truthy (JStr s) = (s \<noteq> [])"
| "js_truthy (JNum n) = (n \<noteq> 0)"
| "js_truthy (JBool b) = b"
| "js_truthy JNull = False"
| "js_truthy JUndef = False"
| "js_truthy (JDate t) = True"

text \<open>\<^verbatim>\<open>a || b\<close>: the left operand when it is truthy, the right one otherwise.\<close>

definition js_or :: "jsval \<Rightarrow> jsval \<Rightarrow> jsval" where
  "js_or a b = (if js_truthy a then a else b)"

section \<open>JavaScript objects\<close>

text \<open>
  A plain object is the list of its own enumerable properties in insertion order, the
  order \<^verbatim>\<open>for ... in\<close> and \<^verbatim>\<open>Object.keys\<close> follow. A well-formed object has
  each key once.
\<close>

type_synonym jsobj = "(string \<times> jsval) list"

definition obj_wf :: "jsobj \<Rightarrow> bool" where
  "obj_wf ob = distinct (map fst ob)"

definition obj_keys :: "jsobj \<Rightarrow> string list" where
  "obj_keys ob = map fst ob"

definition obj_has :: "jsobj \<Rightarrow> string \<Rightarrow> bool" where
  "obj_has ob k = (k \<in> set (map fst ob))"

text \<open>\<^verbatim>\<open>ob[k]\<close>: the property's value, \<^verbatim>\<open>undefined\<close> when there is none.\<close>

definition obj_get :: "jsobj \<Rightarrow> string \<Rightarrow> jsval" where
  "obj_get ob k = (case map_of ob k of None \<Rightarrow> JUndef | Some v \<Rightarrow> v)"

text \<open>\<^verbatim>\<open>ob[k] = v\<close>: an existing property keeps its place, a new one is appended.\<close>

fun obj_replace :: "string \<Rightarrow> jsval \<Rightarrow> jsobj \<Rightarrow> jsobj" where
  "obj_replace k v [] = []"
| "obj_replace k v ((k', v') # ob) =
     (if k' = k then (k', v) else (k', v')) # obj_replace k v ob"

definition obj_set :: "string \<Rightarrow> jsval \<Rightarrow> jsobj \<Rightarrow> jsobj" where
  "obj_set k v ob = (if obj_has ob k then obj_replace k v ob else ob @ [(k, v)])"

text \<open>\<^verbatim>\<open>delete ob[k]\<close>.\<close>

definition obj_delete :: "string \<Rightarrow> jsobj \<Rightarrow> jsobj" where
  "obj_delete k ob = filter (\<lambda>p. fst p \<noteq> k) ob"

subsection \<open>Characteristic equations\<close>

lemma obj_get_Nil [simp, obj_simps]: "obj_get [] k = JUndef"
  by (simp add: obj_get_def)

lemma obj_get_Cons [simp, obj_simps]:
  "obj_get ((k', v) # ob) k = (if k = k' then v else obj_get ob k)"
  by (simp add: obj_get_def)

lemma map_fst_replace [simp]: "map fst (obj_replace k v ob) = map fst ob"
  by (induction ob) auto

lemma map_of_replace:
  "map_of (obj_replace k v ob) k' = (if k' = k then map_option (\<lambda>_. v) (map_of ob k') else map_of ob k')"
  by (induction ob) auto

lemma obj_get_set [simp, obj_simps]:
  "obj_get (obj_set k v ob) k' = (if k' = k then v else obj_get ob k')"
proof (cases "obj_has ob k")
  case True
  then have "map_of ob k \<noteq> None" by (simp add: obj_has_def map_of_eq_None_iff)
  with True show ?thesis by (auto simp: obj_set_def obj_get_def map_of_replace)
next
  case False
  then have "map_of ob k = None" by (simp add: obj_has_def map_of_eq_None_iff)
  with False show ?thesis by (auto simp: obj_set_def obj_get_def map_add_def split: option.splits)
qed

lemma map_of_obj_set [obj_simps]: "map_of (obj_set k v ob) k' = (if k' = k then Some v else map_of ob k')"
proof (cases "obj_has ob k")
  case True
  then have "map_of ob k \<noteq> None" by (simp add: obj_has_def map_of_eq_None_iff)
  with True show ?thesis by (auto simp: obj_set_def map_of_replace)
next
  case False
  then have "map_of ob k = None" by (simp add: obj_has_def map_of_eq_None_iff)
  with False show ?thesis by (auto simp: obj_set_def map_add_def split: option.splits)
qed

lemma obj_get_delete [simp, obj_simps]:
  "obj_get (obj_delete k ob) k' = (if k' = k then JUndef else obj_get ob k')"
  by (induction ob) (auto simp: obj_delete_def)

lemma obj_keys_set [obj_simps]:
  "obj_keys (obj_set k v ob) = (if obj_has ob k then obj_keys ob else obj_keys ob @ [k])"
  by (simp add: obj_set_def obj_keys_def)

lemma obj_has_replace: "obj_has (obj_replace k v ob) k' = obj_has ob k'"
  by (simp only: obj_has_def map_fst_replace)

lemma obj_has_set [simp, obj_simps]: "obj_has (obj_set k v ob) k' = (k' = k \<or> obj_has ob k')"
  by (auto simp: obj_set_def obj_has_replace) (auto simp: obj_has_def)

lemma obj_wf_set [intro, obj_simps]: "obj_wf ob \<Longrightarrow> obj_wf (obj_set k v ob)"
  by (auto simp: obj_wf_def obj_set_def obj_has_def)

lemma obj_wf_filter [intro]: "obj_wf ob \<Longrightarrow> obj_wf (filter P ob)"
  by (simp add: obj_wf_def distinct_map_filter)

lemma obj_wf_delete [intro, obj_simps]: "obj_wf ob \<Longrightarrow> obj_wf (obj_delete k ob)"
  by (simp add: obj_delete_def obj_wf_filter)

text \<open>In a well-formed object the value a property read returns is the one stored.\<close>

lemma obj_get_mem: "obj_wf ob \<Longrightarrow> (k, v) \<in> set ob \<Longrightarrow> obj_get ob k = v"
  by (simp add: obj_wf_def obj_get_def)

lemma obj_get_in_set: "obj_get ob k \<noteq> JUndef \<Longrightarrow> (k, obj_get ob k) \<in> set ob"
  by (auto simp: obj_get_def split: option.splits dest: map_of_SomeD)

lemma obj_get_truthy_in_set: "js_truthy (obj_get ob k) \<Longrightarrow> (k, obj_get ob k) \<in> set ob"
  by (rule obj_get_in_set) auto

text \<open>Keeping the truthy properties of a well-formed object, as the falsy-deleting loop
  of the PUT handler does.\<close>

lemma map_of_filter_truthy:
  "obj_wf ob \<Longrightarrow>
    map_of (filter (\<lambda>(k, v). js_truthy v) ob) k = (if js_truthy (obj_get ob k) then Some (obj_get ob k) else None)"
proof (induction ob)
  case Nil
  then show ?case by simp
next
  case (Cons p ob)
  obtain a b where p: "p = (a, b)" by fastforce
  with Cons.prems have a: "a \<notin> set (map fst ob)" and wf: "obj_wf ob" by (auto simp: obj_wf_def)
  have "map_of (filter (\<lambda>(k, v). js_truthy v) ob) a = None"
    using a by (auto simp: map_of_eq_None_iff)
  with Cons.IH [OF wf] p show ?case by (cases "k = a") auto
qed

lemma obj_get_filter_truthy:
  "obj_wf ob \<Longrightarrow>
    obj_get (filter (\<lambda>(k, v). js_truthy v) ob) k = (if js_truthy (obj_get ob k) then obj_get ob k else JUndef)"
  by (simp add: obj_get_def [of "filter _ ob"] map_of_filter_truthy)

lemma obj_get_undef: "\<not> obj_has ob k \<Longrightarrow> obj_get ob k = JUndef"
  by (induction ob) (auto simp: obj_has_def)

end
