(* ===== verification/ObjectId.thy ===== *)
theory ObjectId
  imports Prelude
begin

text \<open>
  Document identifiers. The store keys every issue by a 12-byte ObjectId, here its value
  as a number below \<open>2^96\<close>. The handlers see identifiers in two forms: the
  \<^verbatim>\<open>_id\<close> a client sends, which the store casts (\<^verbatim>\<open>findByIdAndUpdate\<close>,
  \<^verbatim>\<open>findByIdAndDelete\<close>, a \<^verbatim>\<open>_id\<close> filter of \<^verbatim>\<open>find\<close>), and the
  \<^verbatim>\<open>_id\<close> a response carries, which JSON serialises as 24 lower-case hex digits.
  The cast accepts exactly the strings of 24 hex digits, of either case; any other value
  is a cast error of the store. This is the cast of Mongoose 7 and later (BSON 5);
  Mongoose 6 and earlier also accept any 12-character string as the 12 bytes of an
  identifier (so also a 12-digit number, cast through its decimal string), which the
  model does not cover.
  This theory proves the two forms agree: printing then casting is the identity, every
  cast identifier is below \<open>2^96\<close>, and casting then printing lower-cases the input.
\<close>

definition hex_char :: "nat \<Rightarrow> char" where
  "hex_char d = (if d < 10 then char_of (48 + d) else char_of (87 + d))"

definition hex_val :: "char \<Rightarrow> nat option" where
  "hex_val c =
     (let n = (of_char c :: nat) in
      if 48 \<le> n \<and> n \<le> 57 then Some (n - 48)
      else if 97 \<le> n \<and> n \<le> 102 then Some (n - 87)
      else if 65 \<le> n \<and> n \<le> 70 then Some (n - 55)
      else None)"

fun parse_hex :: "nat \<Rightarrow> string \<Rightarrow> nat option" where
  "parse_hex acc [] = Some acc"
| "parse_hex acc (c # cs) =
     (case hex_val c of None \<Rightarrow> None | Some d \<Rightarrow> parse_hex (16 * acc + d) cs)"

fun hex_digits :: "nat \<Rightarrow> nat \<Rightarrow> string" where
  "hex_digits 0 n = []"
| "hex_digits (Suc k) n = hex_digits k (n div 16) @ [hex_char (n mod 16)]"

text \<open>\<^verbatim>\<open>ObjectId.prototype.toHexString\<close>, the JSON form of an identifier.\<close>

definition oid_hex :: "nat \<Rightarrow> string" where
  "oid_hex n = hex_digits 24 n"

text \<open>The store's cast of a client-supplied identifier.\<close>

definition cast_oid :: "jsval \<Rightarrow> nat option" where
  "cast_oid v = (case v of JStr s \<Rightarrow> if length s = 24 then parse_hex 0 s else None | _ \<Rightarrow> None)"

text \<open>The lower-case form of a hex digit, as \<^verbatim>\<open>toHexString\<close> prints it.\<close>

definition hex_lower :: "char \<Rightarrow> char" where
  "hex_lower c = (let n = (of_char c :: nat) in if 65 \<le> n \<and> n \<le> 70 then char_of (n + 32) else c)"

subsection \<open>Digits\<close>

lemma hex_val_hex_char [simp]: "d < 16 \<Longrightarrow> hex_val (hex_char d) = Some d"
proof -
  assume "d < 16"
  then consider "d < 10" | "10 \<le> d" "d < 16" by linarith
  then show ?thesis
  proof cases
    case 1
    then show ?thesis by (simp add: hex_char_def hex_val_def)
  next
    case 2
    then have "of_char (char_of (87 + d)) = 87 + d"
      by (simp add: of_char_of)
    with 2 show ?thesis by (simp add: hex_char_def hex_val_def)
  qed
qed

lemma hex_val_bound: "hex_val c = Some d \<Longrightarrow> d < 16"
  by (auto simp: hex_val_def Let_def split: if_splits)

lemma hex_char_val: "hex_val c = Some d \<Longrightarrow> hex_char d = hex_lower c"
  by (auto simp: hex_val_def hex_char_def hex_lower_def Let_def split: if_splits)

lemma cast_oid_truthy: "cast_oid v = Some i \<Longrightarrow> js_truthy v"
  by (auto simp: cast_oid_def split: jsval.splits if_splits)

lemma length_hex_digits [simp]: "length (hex_digits k n) = k"
  by (induction k arbitrary: n) auto

text \<open>Unfolding on a numeral length, for the evaluation of concrete identifiers.\<close>

lemma hex_digits_numeral:
  "hex_digits (numeral w) n = hex_digits (pred_numeral w) (n div 16) @ [hex_char (n mod 16)]"
proof -
  have "numeral w = Suc (pred_numeral w)" by (rule numeral_eq_Suc)
  then show ?thesis by (simp only: hex_digits.simps(2))
qed

lemma parse_hex_append:
  "parse_hex acc (xs @ ys) = (case parse_hex acc xs of None \<Rightarrow> None | Some a \<Rightarrow> parse_hex a ys)"
  by (induction xs arbitrary: acc) (auto split: option.splits)

subsection \<open>Round trip and bound\<close>

lemma parse_hex_digits: "parse_hex acc (hex_digits k n) = Some (acc * 16 ^ k + n mod 16 ^ k)"
proof (induction k arbitrary: acc n)
  case 0
  then show ?case by simp
next
  case (Suc k)
  have "n mod 16 ^ Suc k = 16 * (n div 16 mod 16 ^ k) + n mod 16"
    by (simp add: mod_mult2_eq mult.commute)
  then show ?case
    by (simp add: parse_hex_append Suc.IH algebra_simps)
qed

lemma parse_hex_bound: "parse_hex acc s = Some r \<Longrightarrow> r < (acc + 1) * 16 ^ length s"
proof (induction s arbitrary: acc)
  case Nil
  then show ?case by simp
next
  case (Cons c cs)
  then obtain d where d: "hex_val c = Some d" and r: "parse_hex (16 * acc + d) cs = Some r"
    by (auto split: option.splits)
  from r have "r < (16 * acc + d + 1) * 16 ^ length cs" by (rule Cons.IH)
  also have "\<dots> \<le> (16 * (acc + 1)) * 16 ^ length cs"
    using hex_val_bound [OF d] by (intro mult_le_mono1) simp
  also have "\<dots> = (acc + 1) * 16 ^ Suc (length cs)"
    by (simp add: algebra_simps)
  finally show ?case by simp
qed

lemma parse_hex_lower: "parse_hex acc s = Some r \<Longrightarrow> hex_digits (length s) r = map hex_lower s"
proof (induction s arbitrary: r rule: rev_induct)
  case Nil
  then show ?case by simp
next
  case (snoc c xs)
  then obtain a d where a: "parse_hex acc xs = Some a" and d: "hex_val c = Some d"
    and r: "r = 16 * a + d"
    by (auto simp: parse_hex_append split: option.splits)
  have "r div 16 = a" and "r mod 16 = d"
    using r hex_val_bound [OF d] by simp_all
  with snoc.IH [OF a] hex_char_val [OF d] show ?case by simp
qed

text \<open>Printing an identifier and casting the printed form gives the identifier back.\<close>

theorem oid_roundtrip: "n < 2 ^ 96 \<Longrightarrow> cast_oid (JStr (oid_hex n)) = Some n"
proof -
  assume n: "n < 2 ^ 96"
  have "(2::nat) ^ 96 = 16 ^ 24" by simp
  with n have "n mod 16 ^ 24 = n" by simp
  then show ?thesis by (simp add: cast_oid_def oid_hex_def parse_hex_digits)
qed

theorem oid_roundtrip_witness: "(1234::nat) < 2 ^ 96 \<and> cast_oid (JStr (oid_hex 1234)) = Some 1234"
  using oid_roundtrip [of 1234] by simp

text \<open>Every identifier the cast accepts is a 96-bit value.\<close>

theorem cast_oid_bound: "cast_oid v = Some n \<Longrightarrow> n < 2 ^ 96"
proof -
  assume c: "cast_oid v = Some n"
  then obtain s where "v = JStr s" "length s = 24" "parse_hex 0 s = Some n"
    by (auto simp: cast_oid_def split: jsval.splits if_splits)
  then have "n < 16 ^ 24" using parse_hex_bound [of 0 s n] by simp
  then show ?thesis by simp
qed

theorem cast_oid_bound_witness:
  "cast_oid (JStr ''63dd624c3e7e112e07a5d032'') = Some 30906652776818921245331804210
   \<and> (30906652776818921245331804210::nat) < 2 ^ 96"
proof -
  have c: "cast_oid (JStr ''63dd624c3e7e112e07a5d032'') = Some 30906652776818921245331804210"
    by (simp add: cast_oid_def hex_val_def)
  then show ?thesis using cast_oid_bound [OF c] by simp
qed

text \<open>Casting then printing an identifier lower-cases it: a client that sends upper-case
  hex digits gets the lower-case form back.\<close>

theorem cast_oid_print: "cast_oid (JStr s) = Some n \<Longrightarrow> oid_hex n = map hex_lower s"
  by (auto simp: cast_oid_def oid_hex_def dest!: parse_hex_lower split: if_splits)

end
