(* ===== verification/Issue_Model.thy ===== *)
theory Issue_Model
  imports ObjectId
begin

text \<open>
  The issue document and its schema. \<^verbatim>\<open>src/routes/api.js\<close> requires
  \<^verbatim>\<open>../models/issues\<close>, which is not among the sources; the schema is modelled
  from the data model of the specification: six string paths, the boolean
  \<^verbatim>\<open>open\<close> (default \<open>true\<close>) and the two dates \<^verbatim>\<open>created_on\<close>,
  \<^verbatim>\<open>updated_on\<close> (default: the time of construction). A date is its time value in
  milliseconds. The store casts every value a handler passes for a schema path to the
  path's type; these casts are the object-document mapper's, written out for the values
  that reach them from the handlers:
  \<^item> a string path takes a string as it is and a number or boolean as its
    \<^verbatim>\<open>toString()\<close>;
  \<^item> a boolean path takes \<^verbatim>\<open>true, 'true', 1, '1', 'yes'\<close> as true and
    \<^verbatim>\<open>false, 'false', 0, '0', 'no'\<close> as false;
  \<^item> a date path takes a \<^verbatim>\<open>Date\<close> and a number of milliseconds within the range of
    a \<^verbatim>\<open>Date\<close>.
  Everything else is a cast error. Date strings (parsed by JavaScript's \<^verbatim>\<open>Date\<close>
  parser) are not modelled and count as cast errors; \<^verbatim>\<open>null\<close>,
  \<^verbatim>\<open>undefined\<close> and \<^verbatim>\<open>Date\<close> objects never reach a string path from
  these handlers (the handlers drop or default falsy values first).
\<close>

record issue =
  project :: string
  issue_title :: string
  issue_text :: string
  created_by :: string
  assigned_to :: string
  status_text :: string
  is_open :: bool
  created_on :: int
  updated_on :: int

datatype ftype = TString | TBoolean | TDate

datatype fval = FStr string | FBool bool | FDate int

definition schema_path :: "string \<Rightarrow> ftype option" where
  "schema_path p =
     (if p \<in> set [''project'', ''issue_title'', ''issue_text'', ''created_by'',
                  ''assigned_to'', ''status_text''] then Some TString
      else if p = ''open'' then Some TBoolean
      else if p = ''created_on'' \<or> p = ''updated_on'' then Some TDate
      else None)"

subsection \<open>Casts\<close>

text \<open>\<^verbatim>\<open>Number.prototype.toString()\<close> on an integer.\<close>

fun dec_digits :: "nat \<Rightarrow> string" where
  "dec_digits n =
     (if n < 10 then [char_of (48 + n)] else dec_digits (n div 10) @ [char_of (48 + n mod 10)])"

declare dec_digits.simps [simp del]

definition js_number_string :: "int \<Rightarrow> string" where
  "js_number_string n = (if n < 0 then CHR ''-'' # dec_digits (nat (- n)) else dec_digits (nat n))"

fun cast_string :: "jsval \<Rightarrow> string option" where
  "cast_string (JStr s) = Some s"
| "cast_string (JNum n) = Some (js_number_string n)"
| "cast_string (JBool b) = Some (if b then ''true'' else ''false'')"
| "cast_string _ = None"

fun cast_boolean :: "jsval \<Rightarrow> bool option" where
  "cast_boolean (JBool b) = Some b"
| "cast_boolean (JNum n) = (if n = 1 then Some True else if n = 0 then Some False else None)"
| "cast_boolean (JStr s) =
     (if s \<in> set [''true'', ''1'', ''yes''] then Some True
      else if s \<in> set [''false'', ''0'', ''no''] then Some False else None)"
| "cast_boolean _ = None"

text \<open>The range of a JavaScript \<^verbatim>\<open>Date\<close>: \<open>\<plusminus>8.64 \<cdot> 10^15\<close> ms.\<close>

definition max_time :: int where
  "max_time = 8640000000000000"

fun cast_date :: "jsval \<Rightarrow> int option" where
  "cast_date (JDate t) = (if \<bar>t\<bar> \<le> max_time then Some t else None)"
| "cast_date (JNum n) = (if \<bar>n\<bar> \<le> max_time then Some n else None)"
| "cast_date _ = None"

fun cast_value :: "ftype \<Rightarrow> jsval \<Rightarrow> fval option" where
  "cast_value TString v = map_option FStr (cast_string v)"
| "cast_value TBoolean v = map_option FBool (cast_boolean v)"
| "cast_value TDate v = map_option FDate (cast_date v)"

fun fval_type :: "fval \<Rightarrow> ftype" where
  "fval_type (FStr s) = TString"
| "fval_type (FBool b) = TBoolean"
| "fval_type (FDate t) = TDate"

subsection \<open>Reading and writing a path\<close>

definition get_field :: "string \<Rightarrow> issue \<Rightarrow> fval option" where
  "get_field p d =
     (if p = ''project'' then Some (FStr (project d))
      else if p = ''issue_title'' then Some (FStr (issue_title d))
      else if p = ''issue_text'' then Some (FStr (issue_text d))
      else if p = ''created_by'' then Some (FStr (created_by d))
      else if p = ''assigned_to'' then Some (FStr (assigned_to d))
      else if p = ''status_text'' then Some (FStr (status_text d))
      else if p = ''open'' then Some (FBool (is_open d))
      else if p = ''created_on'' then Some (FDate (created_on d))
      else if p = ''updated_on'' then Some (FDate (updated_on d))
      else None)"

fun set_field :: "string \<Rightarrow> fval \<Rightarrow> issue \<Rightarrow> issue" where
  "set_field p (FStr s) d =
     (if p = ''project'' then d\<lparr>project := s\<rparr>
      else if p = ''issue_title'' then d\<lparr>issue_title := s\<rparr>
      else if p = ''issue_text'' then d\<lparr>issue_text := s\<rparr>
      else if p = ''created_by'' then d\<lparr>created_by := s\<rparr>
      else if p = ''assigned_to'' then d\<lparr>assigned_to := s\<rparr>
      else if p = ''status_text'' then d\<lparr>status_text := s\<rparr>
      else d)"
| "set_field p (FBool b) d = (if p = ''open'' then d\<lparr>is_open := b\<rparr> else d)"
| "set_field p (FDate t) d =
     (if p = ''created_on'' then d\<lparr>created_on := t\<rparr>
      else if p = ''updated_on'' then d\<lparr>updated_on := t\<rparr>
      else d)"

subsection \<open>Construction\<close>

text \<open>
  \<^verbatim>\<open>new Issue({project, issue_title, issue_text, created_by, assigned_to,
  status_text})\<close> at time \<open>now\<close>: each given value cast to its path, the defaults
  \<^verbatim>\<open>open = true\<close> and \<^verbatim>\<open>created_on = updated_on = now\<close>. A value that does
  not cast makes the later \<^verbatim>\<open>save\<close> fail (\<open>None\<close>).
\<close>

definition new_issue ::
  "int \<Rightarrow> jsval \<Rightarrow> jsval \<Rightarrow> jsval \<Rightarrow> jsval \<Rightarrow> jsval \<Rightarrow> jsval \<Rightarrow> issue option" where
  "new_issue now prj title text by assigned status =
     (case (cast_string prj, cast_string title, cast_string text, cast_string by,
            cast_string assigned, cast_string status) of
        (Some p, Some ti, Some tx, Some b, Some a, Some st) \<Rightarrow>
          Some \<lparr>project = p, issue_title = ti, issue_text = tx, created_by = b,
                assigned_to = a, status_text = st, is_open = True,
                created_on = now, updated_on = now\<rparr>
      | _ \<Rightarrow> None)"

subsection \<open>Lemmas\<close>

lemma cast_value_type: "cast_value t v = Some fv \<Longrightarrow> fval_type fv = t"
  by (cases t) auto

lemma schema_path_id [simp]: "schema_path ''_id'' = None"
  by (simp add: schema_path_def)

lemma get_set_field_same:
  "schema_path p = Some (fval_type fv) \<Longrightarrow> get_field p (set_field p fv d) = Some fv"
  by (cases fv) (auto simp: schema_path_def get_field_def split: if_splits)

lemma get_set_field_other: "q \<noteq> p \<Longrightarrow> get_field q (set_field p fv d) = get_field q d"
  by (cases fv) (auto simp: get_field_def)

end
