(* ===== verification/Store.thy ===== *)
theory Store
  imports Issue_Model
begin

text \<open>
  The document store, the external collaborator of \<^verbatim>\<open>src/routes/api.js\<close>: the
  collection of issues with the four operations the handlers call
  (\<^verbatim>\<open>Issue.find\<close>, \<^verbatim>\<open>save\<close> of a new document,
  \<^verbatim>\<open>Issue.findByIdAndUpdate\<close>, \<^verbatim>\<open>Issue.findByIdAndDelete\<close>), modelled from
  the specification. The collection is a list of documents keyed by identifier in the
  store's natural (insertion) order, the order a query without sort returns; a counter
  supplies fresh identifiers. Every operation first casts its arguments to the schema
  (\<open>Issue_Model\<close>, \<open>ObjectId\<close>); a failed cast is the error the callback
  receives as \<^verbatim>\<open>err\<close>. Filter paths outside the schema are passed to the store
  unchanged, as the specification says and as Mongoose 7 and later do by default
  (\<^verbatim>\<open>strictQuery: false\<close>), and match no document (no document has such a
  field; the default of Mongoose 6 would strip them instead); update paths outside the schema are dropped, as the mapper's strict mode does.
  The by-id operations act on the first document with the identifier, as
  \<^verbatim>\<open>findOneAndUpdate\<close> and \<^verbatim>\<open>findOneAndDelete\<close> do.

  Lemmas: the invariant \<open>store_inv\<close> (identifiers distinct and below the counter)
  is kept by every operation, and each operation refines an operation on the abstract
  collection \<open>store_map s\<close>, a partial map from identifiers to documents.
\<close>

datatype db_error = CastError string

record store =
  docs :: "(nat \<times> issue) list"
  next_oid :: nat

definition empty_store :: store where
  "empty_store = \<lparr>docs = [], next_oid = 1\<rparr>"

subsection \<open>Queries\<close>

datatype cond = CondId nat | CondPath string fval | CondUnknown string

fun cast_cond :: "string \<times> jsval \<Rightarrow> db_error + cond" where
  "cast_cond (k, v) =
     (if k = ''_id'' then
        (case cast_oid v of None \<Rightarrow> Inl (CastError k) | Some i \<Rightarrow> Inr (CondId i))
      else (case schema_path k of
              None \<Rightarrow> Inr (CondUnknown k)
            | Some t \<Rightarrow>
                (case cast_value t v of None \<Rightarrow> Inl (CastError k) | Some fv \<Rightarrow> Inr (CondPath k fv))))"

fun cast_filter :: "jsobj \<Rightarrow> db_error + cond list" where
  "cast_filter [] = Inr []"
| "cast_filter (p # ps) =
     (case cast_cond p of
        Inl e \<Rightarrow> Inl e
      | Inr c \<Rightarrow> (case cast_filter ps of Inl e \<Rightarrow> Inl e | Inr cs \<Rightarrow> Inr (c # cs)))"

fun cond_holds :: "cond \<Rightarrow> nat \<times> issue \<Rightarrow> bool" where
  "cond_holds (CondId i) (j, d) = (j = i)"
| "cond_holds (CondPath p fv) (j, d) = (get_field p d = Some fv)"
| "cond_holds (CondUnknown p) jd = False"

text \<open>\<^verbatim>\<open>Issue.find(query, cb)\<close>: every document that satisfies all conditions, in
  store order.\<close>

definition store_find :: "jsobj \<Rightarrow> store \<Rightarrow> db_error + (nat \<times> issue) list" where
  "store_find q s =
     (case cast_filter q of
        Inl e \<Rightarrow> Inl e
      | Inr cs \<Rightarrow> Inr (filter (\<lambda>jd. list_all (\<lambda>c. cond_holds c jd) cs) (docs s)))"

subsection \<open>Insertion\<close>

text \<open>\<^verbatim>\<open>newIssue.save(cb)\<close>: the document gets a fresh identifier and is appended.\<close>

definition store_insert :: "issue \<Rightarrow> store \<Rightarrow> nat \<times> store" where
  "store_insert d s =
     (next_oid s, s\<lparr>docs := docs s @ [(next_oid s, d)], next_oid := Suc (next_oid s)\<rparr>)"

subsection \<open>Update by identifier\<close>

text \<open>The update document cast to the schema: \<^verbatim>\<open>_id\<close> (equal to the filter's, so
  setting it changes nothing) and unknown paths dropped, every other value cast.\<close>

fun cast_update :: "jsobj \<Rightarrow> db_error + (string \<times> fval) list" where
  "cast_update [] = Inr []"
| "cast_update ((k, v) # ps) =
     (if k = ''_id'' then cast_update ps
      else (case schema_path k of
              None \<Rightarrow> cast_update ps
            | Some t \<Rightarrow>
                (case cast_value t v of
                   None \<Rightarrow> Inl (CastError k)
                 | Some fv \<Rightarrow>
                     (case cast_update ps of Inl e \<Rightarrow> Inl e | Inr us \<Rightarrow> Inr ((k, fv) # us)))))"

fun apply_update :: "(string \<times> fval) list \<Rightarrow> issue \<Rightarrow> issue" where
  "apply_update [] d = d"
| "apply_update ((p, fv) # us) d = apply_update us (set_field p fv d)"

fun update_doc :: "nat \<Rightarrow> (issue \<Rightarrow> issue) \<Rightarrow> (nat \<times> issue) list \<Rightarrow> (nat \<times> issue) list" where
  "update_doc i f [] = []"
| "update_doc i f ((j, d) # ds) = (if j = i then (j, f d) # ds else (j, d) # update_doc i f ds)"

text \<open>\<^verbatim>\<open>Issue.findByIdAndUpdate(id, update, cb)\<close>: the document as it was before the
  update (\<open>None\<close>: no document has the identifier) and the new collection.\<close>

definition store_find_by_id_and_update ::
  "jsval \<Rightarrow> jsobj \<Rightarrow> store \<Rightarrow> db_error + ((nat \<times> issue) option \<times> store)" where
  "store_find_by_id_and_update idv u s =
     (case cast_oid idv of
        None \<Rightarrow> Inl (CastError ''_id'')
      | Some i \<Rightarrow>
          (case cast_update u of
             Inl e \<Rightarrow> Inl e
           | Inr us \<Rightarrow>
               (case map_of (docs s) i of
                  None \<Rightarrow> Inr (None, s)
                | Some d \<Rightarrow> Inr (Some (i, d), s\<lparr>docs := update_doc i (apply_update us) (docs s)\<rparr>))))"

subsection \<open>Deletion by identifier\<close>

fun delete_doc :: "nat \<Rightarrow> (nat \<times> issue) list \<Rightarrow> (nat \<times> issue) list" where
  "delete_doc i [] = []"
| "delete_doc i ((j, d) # ds) = (if j = i then ds else (j, d) # delete_doc i ds)"

text \<open>\<^verbatim>\<open>Issue.findByIdAndDelete(id, cb)\<close>: the deleted document, if any.\<close>

definition store_find_by_id_and_delete ::
  "jsval \<Rightarrow> store \<Rightarrow> db_error + ((nat \<times> issue) option \<times> store)" where
  "store_find_by_id_and_delete idv s =
     (case cast_oid idv of
        None \<Rightarrow> Inl (CastError ''_id'')
      | Some i \<Rightarrow>
          (case map_of (docs s) i of
             None \<Rightarrow> Inr (None, s)
           | Some d \<Rightarrow> Inr (Some (i, d), s\<lparr>docs := delete_doc i (docs s)\<rparr>)))"

subsection \<open>Invariant and abstraction\<close>

definition store_inv :: "store \<Rightarrow> bool" where
  "store_inv s = (distinct (map fst (docs s)) \<and> list_all (\<lambda>i. i < next_oid s) (map fst (docs s)))"

definition store_map :: "store \<Rightarrow> nat \<rightharpoonup> issue" where
  "store_map s = map_of (docs s)"

lemmas store_defs = store_find_def store_insert_def store_find_by_id_and_update_def
  store_find_by_id_and_delete_def

lemma map_fst_update_doc [simp]: "map fst (update_doc i f ds) = map fst ds"
  by (induction ds) auto

lemma map_of_update_doc:
  "map_of (update_doc i f ds) = (map_of ds)(i := map_option f (map_of ds i))"
  by (induction ds) (auto simp: fun_eq_iff)

lemma delete_doc_filter:
  "distinct (map fst ds) \<Longrightarrow> delete_doc i ds = filter (\<lambda>jd. fst jd \<noteq> i) ds"
  by (induction ds) (auto simp: image_iff intro!: filter_True [symmetric])

lemma map_of_filter_neq: "map_of (filter (\<lambda>jd. fst jd \<noteq> i) ds) j = (if j = i then None else map_of ds j)"
  by (induction ds) auto

lemma map_of_delete_doc:
  "distinct (map fst ds) \<Longrightarrow> map_of (delete_doc i ds) = (map_of ds)(i := None)"
  by (simp add: delete_doc_filter map_of_filter_neq fun_eq_iff)


subsection \<open>The invariant is kept\<close>

named_theorems store_inv_rules "operations of the store keep store_inv"

lemma store_inv_empty [store_inv_rules]: "store_inv empty_store"
  by (simp add: store_inv_def empty_store_def)

lemma store_inv_insert [store_inv_rules]: "store_inv s \<Longrightarrow> store_inv (snd (store_insert d s))"
  by (auto simp: store_inv_def store_insert_def list_all_iff)

lemma store_inv_update [store_inv_rules]:
  "store_find_by_id_and_update idv u s = Inr (r, s') \<Longrightarrow> store_inv s \<Longrightarrow> store_inv s'"
  by (auto simp: store_find_by_id_and_update_def store_inv_def split: option.splits sum.splits)

lemma set_delete_doc: "set (delete_doc i ds) \<subseteq> set ds"
  by (induction ds) (auto split: if_splits)

lemma distinct_delete_doc: "distinct (map fst ds) \<Longrightarrow> distinct (map fst (delete_doc i ds))"
  by (simp add: delete_doc_filter distinct_map_filter)

lemma store_inv_delete [store_inv_rules]:
  "store_find_by_id_and_delete idv s = Inr (r, s') \<Longrightarrow> store_inv s \<Longrightarrow> store_inv s'"
  using set_delete_doc
  by (fastforce simp: store_find_by_id_and_delete_def store_inv_def distinct_delete_doc
      list_all_iff split: option.splits)

subsection \<open>Refinement of the abstract collection\<close>

lemma fresh_oid: "store_inv s \<Longrightarrow> store_map s (next_oid s) = None"
  by (auto simp: store_inv_def store_map_def list_all_iff map_of_eq_None_iff)

lemma store_map_insert:
  "store_inv s \<Longrightarrow> store_map (snd (store_insert d s)) = (store_map s)(next_oid s \<mapsto> d)"
  using fresh_oid [of s]
  by (auto simp: store_map_def store_insert_def map_add_def fun_eq_iff split: option.splits)

lemma store_map_update:
  assumes "store_find_by_id_and_update idv u s = Inr (r, s')"
    and "cast_oid idv = Some i" and "cast_update u = Inr us"
  shows "store_map s' = (store_map s)(i := map_option (apply_update us) (store_map s i))
    \<and> r = map_option (Pair i) (store_map s i)"
  using assms
  by (auto simp: store_find_by_id_and_update_def store_map_def map_of_update_doc fun_eq_iff
      split: option.splits)

lemma store_map_delete:
  assumes "store_find_by_id_and_delete idv s = Inr (r, s')"
    and "cast_oid idv = Some i" and "store_inv s"
  shows "store_map s' = (store_map s)(i := None) \<and> r = map_option (Pair i) (store_map s i)"
  using assms
  by (auto simp: store_find_by_id_and_delete_def store_map_def store_inv_def map_of_delete_doc
      fun_eq_iff split: option.splits)

subsection \<open>Queries\<close>

lemma cond_holds_id [simp]: "cond_holds (CondId i) jd = (fst jd = i)"
  by (cases jd) simp

lemma cond_holds_path [simp]: "cond_holds (CondPath p fv) jd = (get_field p (snd jd) = Some fv)"
  by (cases jd) simp

lemma cast_filter_mem:
  "cast_filter q = Inr cs \<Longrightarrow> p \<in> set q \<Longrightarrow> \<exists>c \<in> set cs. cast_cond p = Inr c"
  by (induction q arbitrary: cs) (auto split: sum.splits)

lemma cast_cond_path:
  "cast_cond (k, v) = Inr c \<Longrightarrow> k \<noteq> ''_id'' \<Longrightarrow> schema_path k = Some t
    \<Longrightarrow> \<exists>fv. cast_value t v = Some fv \<and> c = CondPath k fv"
  by (auto split: option.splits)

text \<open>Every document a successful query returns is a stored document that satisfies
  each cast condition of the filter.\<close>

lemma store_find_sound:
  assumes "store_find q s = Inr ds" and "jd \<in> set ds" and "(k, v) \<in> set q"
    and "k \<noteq> ''_id''" and "schema_path k = Some t"
  shows "jd \<in> set (docs s) \<and> (\<exists>fv. cast_value t v = Some fv \<and> get_field k (snd jd) = Some fv)"
proof -
  from assms(1) obtain cs where cs: "cast_filter q = Inr cs"
    and ds: "ds = filter (\<lambda>jd. list_all (\<lambda>c. cond_holds c jd) cs) (docs s)"
    by (auto simp: store_find_def split: sum.splits)
  from cast_filter_mem [OF cs assms(3)] obtain c where "c \<in> set cs" "cast_cond (k, v) = Inr c"
    by blast
  moreover from this(2) assms(4,5) obtain fv where "cast_value t v = Some fv" "c = CondPath k fv"
    using cast_cond_path by blast
  moreover obtain j d where "jd = (j, d)" by fastforce
  moreover from assms(2) ds have "jd \<in> set (docs s)" "list_all (\<lambda>c. cond_holds c jd) cs"
    by simp_all
  ultimately show ?thesis by (auto simp: list_all_iff)
qed

subsection \<open>The by-identifier operations, case by case\<close>

lemma find_by_id_and_delete_cases:
  "cast_oid v = None \<Longrightarrow> store_find_by_id_and_delete v s = Inl (CastError ''_id'')"
  "cast_oid v = Some i \<Longrightarrow> store_map s i = None \<Longrightarrow> store_find_by_id_and_delete v s = Inr (None, s)"
  "cast_oid v = Some i \<Longrightarrow> store_map s i = Some d \<Longrightarrow>
     store_find_by_id_and_delete v s = Inr (Some (i, d), s\<lparr>docs := delete_doc i (docs s)\<rparr>)"
  by (simp_all add: store_find_by_id_and_delete_def store_map_def)

lemma find_by_id_and_update_cases:
  "cast_oid v = None \<Longrightarrow> store_find_by_id_and_update v u s = Inl (CastError ''_id'')"
  "cast_oid v = Some i \<Longrightarrow> cast_update u = Inl e \<Longrightarrow> store_find_by_id_and_update v u s = Inl e"
  "cast_oid v = Some i \<Longrightarrow> cast_update u = Inr us \<Longrightarrow> store_map s i = None \<Longrightarrow>
     store_find_by_id_and_update v u s = Inr (None, s)"
  "cast_oid v = Some i \<Longrightarrow> cast_update u = Inr us \<Longrightarrow> store_map s i = Some d \<Longrightarrow>
     store_find_by_id_and_update v u s = Inr (Some (i, d), s\<lparr>docs := update_doc i (apply_update us) (docs s)\<rparr>)"
  by (simp_all add: store_find_by_id_and_update_def store_map_def)

subsection \<open>Updates\<close>

lemma cast_update_map_of:
  "cast_update u = Inr us \<Longrightarrow>
    map_of us k = (case schema_path k of None \<Rightarrow> None | Some t \<Rightarrow> Option.bind (map_of u k) (cast_value t))"
  by (induction u arbitrary: us rule: cast_update.induct) (auto split: if_splits option.splits sum.splits)

lemma cast_update_fst:
  "cast_update u = Inr us \<Longrightarrow> map fst us = filter (\<lambda>k. schema_path k \<noteq> None) (map fst u)"
  by (induction u arbitrary: us rule: cast_update.induct) (auto split: if_splits option.splits sum.splits)

lemma cast_update_distinct:
  "cast_update u = Inr us \<Longrightarrow> distinct (map fst u) \<Longrightarrow> distinct (map fst us)"
  by (simp add: cast_update_fst)

lemma cast_update_typed:
  "cast_update u = Inr us \<Longrightarrow> (p, fv) \<in> set us \<Longrightarrow> schema_path p = Some (fval_type fv)"
  by (induction u arbitrary: us rule: cast_update.induct)
    (auto simp: cast_value_type split: if_splits option.splits sum.splits)

lemma apply_update_get:
  "distinct (map fst us) \<Longrightarrow> list_all (\<lambda>(p, fv). schema_path p = Some (fval_type fv)) us \<Longrightarrow>
    get_field k (apply_update us d) = (case map_of us k of None \<Rightarrow> get_field k d | Some fv \<Rightarrow> Some fv)"
proof (induction us arbitrary: d)
  case Nil
  then show ?case by simp
next
  case (Cons pf us)
  obtain p fv where pf: "pf = (p, fv)" by fastforce
  with Cons.prems have IH: "get_field k (apply_update us d') =
      (case map_of us k of None \<Rightarrow> get_field k d' | Some fv \<Rightarrow> Some fv)" for d'
    by (intro Cons.IH) simp_all
  from Cons.prems pf have "map_of us p = None" and "schema_path p = Some (fval_type fv)"
    by (auto simp: map_of_eq_None_iff)
  then show ?case
    using IH [of "set_field p fv d"] pf
    by (cases "k = p") (auto simp: get_set_field_same get_set_field_other split: option.splits)
qed

lemma cast_update_total:
  "cast_update u = Inr us \<Longrightarrow> (k, v) \<in> set u \<Longrightarrow> schema_path k = Some t \<Longrightarrow> cast_value t v \<noteq> None"
  by (induction u arbitrary: us rule: cast_update.induct) (auto split: if_splits option.splits sum.splits)

text \<open>The value a path holds after a successful update: the cast value of the update
  document where it has the path, the old value otherwise.\<close>

lemma cast_update_apply:
  assumes "cast_update u = Inr us" and "distinct (map fst u)"
  shows "get_field k (apply_update us d) =
    (case schema_path k of None \<Rightarrow> get_field k d
     | Some t \<Rightarrow> (case map_of u k of None \<Rightarrow> get_field k d | Some v \<Rightarrow> cast_value t v))"
proof -
  have "distinct (map fst us)" using assms by (rule cast_update_distinct)
  moreover have "list_all (\<lambda>(p, fv). schema_path p = Some (fval_type fv)) us"
    using cast_update_typed [OF assms(1)] by (auto simp: list_all_iff)
  ultimately have get: "get_field k (apply_update us d) =
      (case map_of us k of None \<Rightarrow> get_field k d | Some fv \<Rightarrow> Some fv)"
    by (rule apply_update_get)
  show ?thesis
  proof (cases "schema_path k")
    case None
    with get show ?thesis by (simp add: cast_update_map_of [OF assms(1)])
  next
    case (Some t)
    show ?thesis
    proof (cases "map_of u k")
      case None
      with \<open>schema_path k = Some t\<close> get show ?thesis by (simp add: cast_update_map_of [OF assms(1)])
    next
      case (Some v)
      then have "cast_value t v \<noteq> None"
        using cast_update_total [OF assms(1) map_of_SomeD [OF Some]] \<open>schema_path k = Some t\<close> by blast
      with \<open>schema_path k = Some t\<close> Some get show ?thesis by (auto simp: cast_update_map_of [OF assms(1)])
    qed
  qed
qed

subsection \<open>Collections after a known sequence of writes\<close>

lemma store_map_above: "store_inv s \<Longrightarrow> next_oid s \<le> i \<Longrightarrow> store_map s i = None"
  by (auto simp: store_inv_def store_map_def list_all_iff map_of_eq_None_iff)

lemma store_map_delete_doc:
  "store_inv s \<Longrightarrow> store_map (s\<lparr>docs := delete_doc i (docs s)\<rparr>) = (store_map s)(i := None)"
  by (simp add: store_map_def store_inv_def map_of_delete_doc)

lemma store_inv_delete_doc: "store_inv s \<Longrightarrow> store_inv (s\<lparr>docs := delete_doc i (docs s)\<rparr>)"
  using set_delete_doc [of i "docs s"]
  by (fastforce simp: store_inv_def distinct_delete_doc list_all_iff)

end
