(* ===== verification/Handlers.thy ===== *)
theory Handlers
  imports Store
begin

text \<open>
  The request handlers of \<^verbatim>\<open>src/routes/api.js\<close>, one definition per route method
  of \<^verbatim>\<open>app.route('/api/issues/:project')\<close>: \<open>issue_get\<close> (lines 15--43),
  \<open>issue_post\<close> (45--79), \<open>issue_put\<close> (81--113), \<open>issue_delete\<close>
  (115--131). Each takes the path segment \<^verbatim>\<open>project\<close>, the parsed query or body
  and the store, and returns the response and the new store; \<open>issue_post\<close> and
  \<open>issue_put\<close> also take \<open>now\<close>, the time \<^verbatim>\<open>new Date()\<close> and the schema
  defaults read. A response is what the handler hands to \<^verbatim>\<open>res.send\<close> or
  \<^verbatim>\<open>res.json\<close>; every one of them has HTTP status 200. \<open>NoResponse\<close> is the
  \<^verbatim>\<open>if (err) return console.log(err)\<close> branch of every store callback: the error is
  logged and the request is never answered.
\<close>

record issue_json =
  j_id :: nat
  j_issue_title :: string
  j_issue_text :: string
  j_created_on :: int
  j_updated_on :: int
  j_created_by :: string
  j_assigned_to :: string
  j_open :: bool
  j_status_text :: string

text \<open>The object the GET and POST handlers build from a stored document (lines 28--38
  and 67--77); the \<^verbatim>\<open>project\<close> path is not part of it.\<close>

definition issue_json_of :: "nat \<times> issue \<Rightarrow> issue_json" where
  "issue_json_of jd =
     (case jd of (i, d) \<Rightarrow>
        \<lparr>j_id = i, j_issue_title = issue_title d, j_issue_text = issue_text d,
         j_created_on = created_on d, j_updated_on = updated_on d,
         j_created_by = created_by d, j_assigned_to = assigned_to d,
         j_open = is_open d, j_status_text = status_text d\<rparr>)"

datatype response =
    NoIssuesFound
  | IssueList "issue_json list"
  | IssueCreated issue_json
  | ErrorMsg string
  | ErrorId string jsval
  | ResultId string jsval
  | NoResponse

section \<open>GET: list the issues of a project\<close>

text \<open>\<^verbatim>\<open>query.project = project\<close>, then \<^verbatim>\<open>Issue.find(query)\<close>; no match is the
  text \<^verbatim>\<open>'No issues found'\<close>, not an empty array.\<close>

definition issue_get :: "string \<Rightarrow> jsobj \<Rightarrow> store \<Rightarrow> response" where
  "issue_get proj query s =
     (let query' = obj_set ''project'' (JStr proj) query in
      case store_find query' s of
        Inl err \<Rightarrow> NoResponse
      | Inr issues \<Rightarrow>
          if length issues = 0 then NoIssuesFound else IssueList (map issue_json_of issues))"

section \<open>POST: create an issue\<close>

definition issue_post :: "int \<Rightarrow> string \<Rightarrow> jsobj \<Rightarrow> store \<Rightarrow> response \<times> store" where
  "issue_post now proj body s =
     (let title = obj_get body ''issue_title''; text = obj_get body ''issue_text'';
          by = obj_get body ''created_by''; assigned = obj_get body ''assigned_to'';
          status = obj_get body ''status_text'' in
      if \<not> js_truthy title \<or> \<not> js_truthy text \<or> \<not> js_truthy by
      then (ErrorMsg ''required field(s) missing'', s)
      else
        (case new_issue now (JStr proj) title text by
                (js_or assigned (JStr '''')) (js_or status (JStr '''')) of
           None \<Rightarrow> (NoResponse, s)
         | Some d \<Rightarrow> (case store_insert d s of (i, s') \<Rightarrow> (IssueCreated (issue_json_of (i, d)), s'))))"

section \<open>PUT: update an issue\<close>

text \<open>
  The loop of lines 92--96, \<^verbatim>\<open>for (let entry in updateIssue) if
  (!updateIssue[entry]) delete updateIssue[entry]\<close>: it visits the keys the object had
  when the loop started and deletes each whose value is falsy.
\<close>

fun strip_falsy_loop :: "string list \<Rightarrow> jsobj \<Rightarrow> jsobj" where
  "strip_falsy_loop [] ob = ob"
| "strip_falsy_loop (k # ks) ob =
     strip_falsy_loop ks (if \<not> js_truthy (obj_get ob k) then obj_delete k ob else ob)"

definition strip_falsy :: "jsobj \<Rightarrow> jsobj" where
  "strip_falsy ob = strip_falsy_loop (obj_keys ob) ob"

text \<open>The update document passed to the store (lines 91--103).\<close>

definition put_patch :: "int \<Rightarrow> string \<Rightarrow> jsobj \<Rightarrow> jsobj" where
  "put_patch now proj body =
     obj_set ''updated_on'' (JDate now) (obj_set ''project'' (JStr proj) (strip_falsy body))"

definition issue_put :: "int \<Rightarrow> string \<Rightarrow> jsobj \<Rightarrow> store \<Rightarrow> response \<times> store" where
  "issue_put now proj body s =
     (if \<not> js_truthy (obj_get body ''_id'') then (ErrorMsg ''missing _id'', s)
      else
        (let u = strip_falsy body in
         if length (obj_keys u) = 1 \<and> js_truthy (obj_get u ''_id'')
         then (ErrorId ''no update field(s) sent'' (obj_get u ''_id''), s)
         else
           (let u' = put_patch now proj body in
            case store_find_by_id_and_update (obj_get u' ''_id'') u' s of
              Inl err \<Rightarrow> (NoResponse, s)
            | Inr (None, s') \<Rightarrow> (ErrorId ''could not update'' (obj_get u' ''_id''), s')
            | Inr (Some (i, d), s') \<Rightarrow> (ResultId ''successfully updated'' (JStr (oid_hex i)), s'))))"

section \<open>DELETE: delete an issue\<close>

definition issue_delete :: "string \<Rightarrow> jsobj \<Rightarrow> store \<Rightarrow> response \<times> store" where
  "issue_delete proj body s =
     (let iss = obj_get body ''_id'' in
      if \<not> js_truthy iss then (ErrorMsg ''missing _id'', s)
      else
        (case store_find_by_id_and_delete iss s of
           Inl err \<Rightarrow> (NoResponse, s)
         | Inr (None, s') \<Rightarrow> (ErrorId ''could not delete'' iss, s')
         | Inr (Some data, s') \<Rightarrow> (ResultId ''successfully deleted'' iss, s')))"

section \<open>Example data\<close>

text \<open>A store with the issue of the functional tests (\<^verbatim>\<open>src/tests/2_functional-tests.js\<close>,
  test 1 of POST) under identifier 7, and a copy of it in another project under 8.\<close>

definition demo_issue :: issue where
  "demo_issue =
     \<lparr>project = ''apitest'', issue_title = ''Func Test 1'',
      issue_text = ''Create issue with every field'', created_by = ''user1'',
      assigned_to = ''tester1'', status_text = ''To be tested'', is_open = True,
      created_on = 1000, updated_on = 1000\<rparr>"

definition demo_store :: store where
  "demo_store = \<lparr>docs = [(7, demo_issue), (8, demo_issue\<lparr>project := ''other''\<rparr>)], next_oid = 9\<rparr>"

text \<open>The request bodies of the functional tests, and a store that holds the three
  identifiers the tests update or delete (\<^verbatim>\<open>63dd624c3e7e112e07a5d032\<close>,
  \<^verbatim>\<open>...d034\<close>, \<^verbatim>\<open>63dd633b6907e45f9ebccda2\<close>) but not the one they
  use as an unknown identifier (\<^verbatim>\<open>63dd4614fd4ca8d1372cf3b5\<close>).\<close>

definition test_post_every_field :: jsobj where
  "test_post_every_field =
     [(''issue_title'', JStr ''Func Test 1''), (''issue_text'', JStr ''Create issue with every field''),
      (''created_by'', JStr ''user1''), (''assigned_to'', JStr ''tester1''),
      (''status_text'', JStr ''To be tested'')]"

definition test_post_required_only :: jsobj where
  "test_post_required_only =
     [(''issue_title'', JStr ''Func Test 2''),
      (''issue_text'', JStr ''Create issue with only required fields''), (''created_by'', JStr ''user2'')]"

definition test_post_missing :: jsobj where
  "test_post_missing =
     [(''issue_title'', JStr ''Func Test 3''),
      (''issue_text'', JStr ''Create issue with missing required fields'')]"

definition test_put_one_field :: jsobj where
  "test_put_one_field = [(''_id'', JStr ''63dd624c3e7e112e07a5d032''), (''status_text'', JStr ''Test complete'')]"

definition test_put_multiple :: jsobj where
  "test_put_multiple =
     [(''_id'', JStr ''63dd624c3e7e112e07a5d034''),
      (''status_text'', JStr ''Test complete and will be closed''), (''open'', JBool False)]"

definition test_put_missing_id :: jsobj where
  "test_put_missing_id = [(''issue_title'', JStr ''Func Test 9''), (''status_text'', JStr ''Test complete'')]"

definition test_put_no_fields :: jsobj where
  "test_put_no_fields = [(''_id'', JStr ''63dd624c3e7e112e07a5d034'')]"

definition test_put_invalid_id :: jsobj where
  "test_put_invalid_id = [(''_id'', JStr ''63dd4614fd4ca8d1372cf3b5''), (''status_text'', JStr ''Test complete'')]"

definition test_delete :: jsobj where
  "test_delete = [(''_id'', JStr ''63dd633b6907e45f9ebccda2'')]"

definition test_delete_invalid_id :: jsobj where
  "test_delete_invalid_id = [(''_id'', JStr ''63dd4614fd4ca8d1372cf3b5'')]"

definition test_delete_missing_id :: jsobj where
  "test_delete_missing_id = []"

definition test_store :: store where
  "test_store =
     \<lparr>docs = [(30906652776818921245331804210, demo_issue),
             (30906652776818921245331804212, demo_issue\<lparr>issue_title := ''Func Test 2''\<rparr>),
             (30906657188655968093258698146, demo_issue)],
      next_oid = 30906657188655968093258698147\<rparr>"

section \<open>Lemmas shared by the handler proofs\<close>

lemma set_obj_set_other: "(k, v) \<in> set ob \<Longrightarrow> k \<noteq> k0 \<Longrightarrow> (k, v) \<in> set (obj_set k0 v0 ob)"
proof -
  have "(k, v) \<in> set ob \<Longrightarrow> k \<noteq> k0 \<Longrightarrow> (k, v) \<in> set (obj_replace k0 v0 ob)"
    by (induction ob) auto
  then show "(k, v) \<in> set ob \<Longrightarrow> k \<noteq> k0 \<Longrightarrow> (k, v) \<in> set (obj_set k0 v0 ob)"
    by (auto simp: obj_set_def)
qed

lemma set_obj_set_self: "(k, v) \<in> set (obj_set k v ob)"
proof -
  have "obj_has ob k \<Longrightarrow> (k, v) \<in> set (obj_replace k v ob)"
    by (induction ob) (force simp: obj_has_def)+
  then show ?thesis by (auto simp: obj_set_def)
qed

lemma strip_falsy_loop_filter:
  "obj_wf ob \<Longrightarrow> strip_falsy_loop ks ob = filter (\<lambda>(k, v). k \<notin> set ks \<or> js_truthy v) ob"
proof (induction ks arbitrary: ob)
  case Nil
  then show ?case by (simp add: case_prod_beta)
next
  case (Cons k ks)
  show ?case
  proof (cases "js_truthy (obj_get ob k)")
    case True
    then have "strip_falsy_loop (k # ks) ob = filter (\<lambda>(k, v). k \<notin> set ks \<or> js_truthy v) ob"
      using Cons by simp
    also have "\<dots> = filter (\<lambda>(k', v). k' \<notin> set (k # ks) \<or> js_truthy v) ob"
      using True obj_get_mem [OF Cons.prems] by (intro filter_cong) auto
    finally show ?thesis .
  next
    case False
    have wf: "obj_wf (obj_delete k ob)" using Cons.prems by (rule obj_wf_delete)
    have "strip_falsy_loop (k # ks) ob
        = filter (\<lambda>(k, v). k \<notin> set ks \<or> js_truthy v) (filter (\<lambda>p. fst p \<noteq> k) ob)"
      using False Cons.IH [OF wf] by (simp add: obj_delete_def)
    also have "\<dots> = filter (\<lambda>(k', v). k' \<notin> set (k # ks) \<or> js_truthy v) ob"
      unfolding filter_filter
      using False obj_get_mem [OF Cons.prems] by (intro filter_cong) auto
    finally show ?thesis .
  qed
qed

lemma strip_falsy_filter: "obj_wf ob \<Longrightarrow> strip_falsy ob = filter (\<lambda>(k, v). js_truthy v) ob"
proof -
  assume wf: "obj_wf ob"
  have "filter (\<lambda>(k, v). k \<notin> set (obj_keys ob) \<or> js_truthy v) ob = filter (\<lambda>(k, v). js_truthy v) ob"
    by (rule filter_cong) (force simp: obj_keys_def)+
  with wf show ?thesis by (simp add: strip_falsy_def strip_falsy_loop_filter)
qed

lemma js_or_default: "v = JStr a \<or> (v = JUndef \<and> a = []) \<Longrightarrow> js_or v (JStr []) = JStr a"
  by (auto simp: js_or_def)

lemma issue_get_IssueList:
  "issue_get proj q s = IssueList js \<Longrightarrow>
    \<exists>ds. store_find (obj_set ''project'' (JStr proj) q) s = Inr ds \<and> js = map issue_json_of ds"
  by (auto simp: issue_get_def Let_def split: sum.splits if_splits)

lemma issue_json_of_id [simp]: "j_id (issue_json_of (i, d)) = i"
  by (simp add: issue_json_of_def)

lemma issue_get_member:
  assumes "issue_get proj q s = IssueList js" and "j \<in> set js"
    and "(k, v) \<in> set (obj_set ''project'' (JStr proj) q)" and "k \<noteq> ''_id''"
    and "schema_path k = Some t"
  shows "\<exists>d fv. (j_id j, d) \<in> set (docs s) \<and> j = issue_json_of (j_id j, d)
    \<and> cast_value t v = Some fv \<and> get_field k d = Some fv"
proof -
  obtain ds where find: "store_find (obj_set ''project'' (JStr proj) q) s = Inr ds"
    and js: "js = map issue_json_of ds"
    using issue_get_IssueList [OF assms(1)] by blast
  from assms(2) js obtain i d where jd: "(i, d) \<in> set ds" "j = issue_json_of (i, d)" by auto
  from store_find_sound [OF find jd(1) assms(3-5)] jd show ?thesis by auto
qed

section \<open>GET\<close>

text \<open>C1. Listing is scoped to the project of the path: every issue a GET returns is a
  stored document whose \<^verbatim>\<open>project\<close> is the path segment, whatever
  \<^verbatim>\<open>project\<close> the query string carries.\<close>

theorem issue_get_scoped:
  assumes "issue_get proj q s = IssueList js" and "j \<in> set js"
  shows "\<exists>d. (j_id j, d) \<in> set (docs s) \<and> j = issue_json_of (j_id j, d) \<and> project d = proj"
proof -
  have "schema_path ''project'' = Some TString" by (simp add: schema_path_def)
  from issue_get_member [OF assms set_obj_set_self _ this] show ?thesis
    by (auto simp: get_field_def)
qed

theorem issue_get_scoped_witness:
  "issue_get ''apitest'' [(''project'', JStr ''other'')] demo_store
     = IssueList [issue_json_of (7, demo_issue)]
   \<and> issue_json_of (7, demo_issue) \<in> set [issue_json_of (7, demo_issue)]
   \<and> (\<exists>d. (7, d) \<in> set (docs demo_store) \<and> issue_json_of (7, demo_issue) = issue_json_of (7, d)
        \<and> project d = ''apitest'')"
proof -
  have h: "issue_get ''apitest'' [(''project'', JStr ''other'')] demo_store
      = IssueList [issue_json_of (7, demo_issue)]"
    by (simp add: issue_get_def store_find_def obj_set_def obj_has_def schema_path_def
        get_field_def demo_store_def demo_issue_def)
  show ?thesis using issue_get_scoped [OF h, of "issue_json_of (7, demo_issue)"] h by simp
qed

text \<open>C2. Listing honours the filters: every issue a GET returns satisfies each query
  field of the schema other than \<^verbatim>\<open>project\<close> and \<^verbatim>\<open>_id\<close> exactly, after
  the store's cast of the query value to the field's type.\<close>

theorem issue_get_filters:
  assumes "issue_get proj q s = IssueList js" and "j \<in> set js"
    and "(k, v) \<in> set q" and "k \<noteq> ''project''" and "k \<noteq> ''_id''" and "schema_path k = Some t"
  shows "\<exists>d fv. (j_id j, d) \<in> set (docs s) \<and> cast_value t v = Some fv \<and> get_field k d = Some fv"
  using issue_get_member [OF assms(1,2) set_obj_set_other [OF assms(3,4)] assms(5,6)] by blast

theorem issue_get_filters_witness:
  "issue_get ''apitest'' [(''assigned_to'', JStr ''tester1''), (''open'', JStr ''true'')] demo_store
     = IssueList [issue_json_of (7, demo_issue)]
   \<and> issue_json_of (7, demo_issue) \<in> set [issue_json_of (7, demo_issue)]
   \<and> (''open'', JStr ''true'') \<in> set [(''assigned_to'', JStr ''tester1''), (''open'', JStr ''true'')]
   \<and> ''open'' \<noteq> ''project'' \<and> ''open'' \<noteq> ''_id'' \<and> schema_path ''open'' = Some TBoolean
   \<and> (\<exists>d fv. (7, d) \<in> set (docs demo_store) \<and> cast_value TBoolean (JStr ''true'') = Some fv
        \<and> get_field ''open'' d = Some fv)"
proof -
  have h: "issue_get ''apitest'' [(''assigned_to'', JStr ''tester1''), (''open'', JStr ''true'')] demo_store
      = IssueList [issue_json_of (7, demo_issue)]"
    by (simp add: issue_get_def store_find_def obj_set_def obj_has_def schema_path_def
        get_field_def demo_store_def demo_issue_def)
  have p: "schema_path ''open'' = Some TBoolean" by (simp add: schema_path_def)
  show ?thesis
    using issue_get_filters [OF h _ _ _ _ p, of "issue_json_of (7, demo_issue)" "JStr ''true''"] h p
    by simp
qed

text \<open>C3. Without filters, GET lists exactly the stored issues of the project, in store
  order, and answers \<^verbatim>\<open>'No issues found'\<close> when there is none.\<close>

theorem issue_get_all:
  "issue_get proj [] s =
     (let ds = filter (\<lambda>jd. project (snd jd) = proj) (docs s) in
      if ds = [] then NoIssuesFound else IssueList (map issue_json_of ds))"
  by (simp add: issue_get_def store_find_def obj_set_def obj_has_def schema_path_def get_field_def)

text \<open>C4. The empty result is a distinguished marker: a GET never answers with an empty
  array.\<close>

theorem issue_get_never_empty_list: "issue_get proj q s \<noteq> IssueList []"
  by (auto simp: issue_get_def Let_def split: sum.splits)

text \<open>C5. A query value the store cannot cast makes \<^verbatim>\<open>Issue.find\<close> fail, and the
  handler only logs the error: a GET whose query holds an \<^verbatim>\<open>_id\<close> that is not an
  identifier, or a value of the wrong type for a field of the schema (such as
  \<^verbatim>\<open>?open=maybe\<close>), is never answered, whatever the store holds. (A
  \<^verbatim>\<open>project\<close> in the query is replaced by the path segment first.)\<close>

theorem issue_get_cast_error:
  assumes "(k, v) \<in> set q" and "k \<noteq> ''project''"
    and "(k = ''_id'' \<and> cast_oid v = None) \<or> (\<exists>t. schema_path k = Some t \<and> cast_value t v = None)"
  shows "issue_get proj q s = NoResponse"
proof -
  have mem: "(k, v) \<in> set (obj_set ''project'' (JStr proj) q)"
    using assms(1,2) by (rule set_obj_set_other)
  have "cast_cond (k, v) \<notin> range Inr"
    using assms(3) by (auto simp: split: option.splits)
  then have "\<not> (\<exists>cs. cast_filter (obj_set ''project'' (JStr proj) q) = Inr cs)"
    using cast_filter_mem [OF _ mem] by blast
  then show ?thesis by (auto simp: issue_get_def store_find_def split: sum.split)
qed

theorem issue_get_cast_error_witness:
  "issue_get ''apitest'' [(''open'', JStr ''maybe'')] test_store = NoResponse"
  by (rule issue_get_cast_error [of "''open''" "JStr ''maybe''"]) (simp_all add: schema_path_def)


section \<open>PUT\<close>

subsection \<open>The update document\<close>

lemma strip_falsy_wf: "obj_wf body \<Longrightarrow> obj_wf (strip_falsy body)"
  by (simp add: strip_falsy_filter obj_wf_filter)

lemma put_patch_wf: "obj_wf body \<Longrightarrow> obj_wf (put_patch now proj body)"
  by (simp add: put_patch_def strip_falsy_wf obj_wf_set)

lemma put_patch_id:
  "obj_wf body \<Longrightarrow> js_truthy (obj_get body ''_id'') \<Longrightarrow> obj_get (put_patch now proj body) ''_id'' = obj_get body ''_id''"
  by (simp add: put_patch_def strip_falsy_filter obj_get_filter_truthy)

lemma map_of_put_patch:
  "obj_wf body \<Longrightarrow> map_of (put_patch now proj body) k =
     (if k = ''updated_on'' then Some (JDate now) else if k = ''project'' then Some (JStr proj)
      else if js_truthy (obj_get body k) then Some (obj_get body k) else None)"
  by (simp add: put_patch_def map_of_obj_set strip_falsy_filter map_of_filter_truthy)

text \<open>What a path of the document holds after the store applied the update document.\<close>

lemma put_patch_apply:
  assumes "obj_wf body" and "cast_update (put_patch now proj body) = Inr us"
  shows "get_field k (apply_update us d) =
    (case schema_path k of
       None \<Rightarrow> get_field k d
     | Some t \<Rightarrow>
         if k = ''updated_on'' then cast_value t (JDate now)
         else if k = ''project'' then cast_value t (JStr proj)
         else if js_truthy (obj_get body k) then cast_value t (obj_get body k)
         else get_field k d)"
proof -
  have "distinct (map fst (put_patch now proj body))"
    using put_patch_wf [OF assms(1)] by (simp add: obj_wf_def)
  from cast_update_apply [OF assms(2) this, of k d] show ?thesis
    by (simp add: map_of_put_patch [OF assms(1)] split: option.splits)
qed

lemma put_patch_project:
  assumes "obj_wf body" and "cast_update (put_patch now proj body) = Inr us"
  shows "project (apply_update us d) = proj"
proof -
  have "get_field ''project'' (apply_update us d) = Some (FStr proj)"
    using put_patch_apply [OF assms, of "''project''" d] by (simp add: schema_path_def)
  then show ?thesis by (simp add: get_field_def)
qed

lemma put_patch_updated_on:
  assumes "obj_wf body" and "cast_update (put_patch now proj body) = Inr us"
  shows "updated_on (apply_update us d) = now"
proof -
  have "get_field ''updated_on'' (apply_update us d) = cast_value TDate (JDate now)"
    using put_patch_apply [OF assms, of "''updated_on''" d] by (simp add: schema_path_def)
  then show ?thesis by (auto simp: get_field_def split: if_splits)
qed

subsection \<open>The guard \<^verbatim>\<open>Object.keys(updateIssue).length === 1 && updateIssue._id\<close>\<close>

lemma filter_key_single:
  "distinct (map fst xs) \<Longrightarrow> (k, v) \<in> set xs \<Longrightarrow> filter (\<lambda>p. fst p = k) xs = [(k, v)]"
  by (induction xs) (force simp: filter_empty_conv)+

lemma strip_only_id:
  assumes "obj_wf body" and "js_truthy (obj_get body ''_id'')"
    and "list_all (\<lambda>(k, v). k = ''_id'' \<or> \<not> js_truthy v) body"
  shows "strip_falsy body = [(''_id'', obj_get body ''_id'')]"
proof -
  have "filter (\<lambda>(k, v). js_truthy v) body = filter (\<lambda>p. fst p = ''_id'') body"
    using assms obj_get_mem [OF assms(1)] by (intro filter_cong) (auto simp: list_all_iff)
  also have "\<dots> = [(''_id'', obj_get body ''_id'')]"
    using assms(1) obj_get_truthy_in_set [OF assms(2)]
    by (intro filter_key_single) (auto simp: obj_wf_def)
  finally show ?thesis using assms(1) by (simp add: strip_falsy_filter)
qed

lemma strip_has_field:
  assumes "obj_wf body" and "js_truthy (obj_get body ''_id'')"
    and "(k, v) \<in> set body" and "k \<noteq> ''_id''" and "js_truthy v"
  shows "length (obj_keys (strip_falsy body)) \<noteq> 1"
proof -
  let ?xs = "filter (\<lambda>(k, v). js_truthy v) body"
  have "(''_id'', obj_get body ''_id'') \<in> set ?xs"
    using assms(2) obj_get_truthy_in_set [OF assms(2)] by auto
  moreover have "(k, v) \<in> set ?xs" using assms(3,5) by simp
  ultimately have "{(''_id'', obj_get body ''_id''), (k, v)} \<subseteq> set ?xs" by simp
  then have "card {(''_id'', obj_get body ''_id''), (k, v)} \<le> card (set ?xs)"
    by (intro card_mono) simp_all
  also have "\<dots> \<le> length ?xs" by (rule card_length)
  finally have "2 \<le> length ?xs" using assms(4) by simp
  then show ?thesis using assms(1) by (simp add: strip_falsy_filter obj_keys_def)
qed

section \<open>POST\<close>

text \<open>C6. Creating with the three required fields non-empty answers with the new issue:
  the submitted title, text and author, the optional \<^verbatim>\<open>assigned_to\<close> and
  \<^verbatim>\<open>status_text\<close> or the empty string in their place, \<^verbatim>\<open>open\<close> true and
  both dates the time of the request; the store holds it under a fresh identifier in
  the path's project. Whatever else the body holds (\<^verbatim>\<open>open\<close>, dates,
  \<^verbatim>\<open>project\<close>) is ignored.\<close>

theorem issue_post_creates:
  assumes "obj_get body ''issue_title'' = JStr ti" "ti \<noteq> []"
    and "obj_get body ''issue_text'' = JStr tx" "tx \<noteq> []"
    and "obj_get body ''created_by'' = JStr b" "b \<noteq> []"
    and "obj_get body ''assigned_to'' = JStr a \<or> (obj_get body ''assigned_to'' = JUndef \<and> a = [])"
    and "obj_get body ''status_text'' = JStr st \<or> (obj_get body ''status_text'' = JUndef \<and> st = [])"
  shows "issue_post now proj body s =
    (IssueCreated \<lparr>j_id = next_oid s, j_issue_title = ti, j_issue_text = tx, j_created_on = now,
        j_updated_on = now, j_created_by = b, j_assigned_to = a, j_open = True, j_status_text = st\<rparr>,
     s\<lparr>docs := docs s @ [(next_oid s,
          \<lparr>project = proj, issue_title = ti, issue_text = tx, created_by = b, assigned_to = a,
           status_text = st, is_open = True, created_on = now, updated_on = now\<rparr>)],
       next_oid := Suc (next_oid s)\<rparr>)"
  using assms js_or_default [OF assms(7)] js_or_default [OF assms(8)]
  by (simp add: issue_post_def Let_def new_issue_def store_insert_def issue_json_of_def)

theorem issue_post_creates_witness:
  "issue_post 2000 ''apitest'' test_post_required_only test_store =
    (IssueCreated \<lparr>j_id = next_oid test_store, j_issue_title = ''Func Test 2'',
        j_issue_text = ''Create issue with only required fields'', j_created_on = 2000,
        j_updated_on = 2000, j_created_by = ''user2'', j_assigned_to = [], j_open = True,
        j_status_text = []\<rparr>,
     test_store\<lparr>docs := docs test_store @ [(next_oid test_store,
          \<lparr>project = ''apitest'', issue_title = ''Func Test 2'',
           issue_text = ''Create issue with only required fields'', created_by = ''user2'',
           assigned_to = [], status_text = [], is_open = True, created_on = 2000, updated_on = 2000\<rparr>)],
       next_oid := Suc (next_oid test_store)\<rparr>)"
  by (rule issue_post_creates) (simp_all add: test_post_required_only_def)

text \<open>C7. Creating with any of \<^verbatim>\<open>issue_title\<close>, \<^verbatim>\<open>issue_text\<close>,
  \<^verbatim>\<open>created_by\<close> missing or falsy answers exactly
  \<^verbatim>\<open>{error: 'required field(s) missing'}\<close> and leaves the store unchanged.\<close>

theorem issue_post_missing:
  "\<not> js_truthy (obj_get body ''issue_title'') \<or> \<not> js_truthy (obj_get body ''issue_text'')
    \<or> \<not> js_truthy (obj_get body ''created_by'')
   \<Longrightarrow> issue_post now proj body s = (ErrorMsg ''required field(s) missing'', s)"
  by (auto simp: issue_post_def Let_def)

theorem issue_post_missing_witness:
  "issue_post 2000 ''apitest'' test_post_missing test_store
     = (ErrorMsg ''required field(s) missing'', test_store)"
  by (rule issue_post_missing) (simp add: test_post_missing_def)

section \<open>DELETE\<close>

text \<open>C8. Deleting a stored identifier removes exactly that issue, keeps the store
  invariant and answers \<^verbatim>\<open>{result: 'successfully deleted', _id}\<close>, echoing the
  identifier sent.\<close>

theorem issue_delete_found:
  assumes "store_inv s" and "cast_oid (obj_get body ''_id'') = Some i" and "store_map s i = Some d"
  shows "\<exists>s'. issue_delete proj body s = (ResultId ''successfully deleted'' (obj_get body ''_id''), s')
    \<and> store_map s' = (store_map s)(i := None) \<and> store_inv s'"
proof -
  let ?s' = "s\<lparr>docs := delete_doc i (docs s)\<rparr>"
  have del: "store_find_by_id_and_delete (obj_get body ''_id'') s = Inr (Some (i, d), ?s')"
    using assms(2,3) by (rule find_by_id_and_delete_cases(3))
  have "issue_delete proj body s = (ResultId ''successfully deleted'' (obj_get body ''_id''), ?s')"
    using del cast_oid_truthy [OF assms(2)] by (simp add: issue_delete_def)
  moreover have "store_map ?s' = (store_map s)(i := None)"
    using store_map_delete [OF del assms(2,1)] by simp
  moreover have "store_inv ?s'" using store_inv_delete [OF del assms(1)] .
  ultimately show ?thesis by blast
qed

theorem issue_delete_found_witness:
  "\<exists>s'. issue_delete ''apitest'' test_delete test_store
      = (ResultId ''successfully deleted'' (JStr ''63dd633b6907e45f9ebccda2''), s')
    \<and> store_map s' = (store_map test_store)(30906657188655968093258698146 := None) \<and> store_inv s'"
proof -
  have inv: "store_inv test_store" by (simp add: store_inv_def test_store_def)
  have c: "cast_oid (obj_get test_delete ''_id'') = Some 30906657188655968093258698146"
    by (simp add: test_delete_def cast_oid_def hex_val_def)
  have m: "store_map test_store 30906657188655968093258698146 = Some demo_issue"
    by (simp add: store_map_def test_store_def)
  show ?thesis using issue_delete_found [OF inv c m] by (simp add: test_delete_def)
qed

text \<open>C9. Deleting a well-formed identifier that no issue has answers
  \<^verbatim>\<open>{error: 'could not delete', _id}\<close> and changes nothing.\<close>

theorem issue_delete_not_found:
  "cast_oid (obj_get body ''_id'') = Some i \<Longrightarrow> store_map s i = None
   \<Longrightarrow> issue_delete proj body s = (ErrorId ''could not delete'' (obj_get body ''_id''), s)"
  by (simp add: issue_delete_def find_by_id_and_delete_cases(2) cast_oid_truthy)

theorem issue_delete_not_found_witness:
  "issue_delete ''apitest'' test_delete_invalid_id test_store
     = (ErrorId ''could not delete'' (JStr ''63dd4614fd4ca8d1372cf3b5''), test_store)"
proof -
  have c: "cast_oid (obj_get test_delete_invalid_id ''_id'') = Some 30906519531288826207072482229"
    by (simp add: test_delete_invalid_id_def cast_oid_def hex_val_def)
  have m: "store_map test_store 30906519531288826207072482229 = None"
    by (simp add: store_map_def test_store_def)
  show ?thesis using issue_delete_not_found [OF c m] by (simp add: test_delete_invalid_id_def)
qed

text \<open>C10. Deleting with no (or a falsy) \<^verbatim>\<open>_id\<close> answers
  \<^verbatim>\<open>{error: 'missing _id'}\<close> and changes nothing.\<close>

theorem issue_delete_missing:
  "\<not> js_truthy (obj_get body ''_id'') \<Longrightarrow> issue_delete proj body s = (ErrorMsg ''missing _id'', s)"
  by (simp add: issue_delete_def)

theorem issue_delete_missing_witness:
  "issue_delete ''apitest'' test_delete_missing_id test_store = (ErrorMsg ''missing _id'', test_store)"
  by (rule issue_delete_missing) (simp add: test_delete_missing_id_def)

text \<open>C11. A malformed identifier is not treated as not-found: the store's cast fails,
  the handler logs the error and never answers (the specification asks for
  \<^verbatim>\<open>{error: 'could not delete', _id}\<close>).\<close>

theorem issue_delete_malformed:
  "js_truthy (obj_get body ''_id'') \<Longrightarrow> cast_oid (obj_get body ''_id'') = None
   \<Longrightarrow> issue_delete proj body s = (NoResponse, s)"
  by (simp add: issue_delete_def find_by_id_and_delete_cases(1))

theorem issue_delete_malformed_witness:
  "issue_delete ''apitest'' [(''_id'', JStr ''not-an-id'')] test_store = (NoResponse, test_store)"
  by (rule issue_delete_malformed) (simp_all add: cast_oid_def)

text \<open>C12. Deletion is not scoped by project: the path segment plays no part in it, so
  an issue of any project is deleted through any project's path.\<close>

theorem issue_delete_unscoped: "issue_delete proj body s = issue_delete proj' body s"
  by (simp add: issue_delete_def)

subsection \<open>Evaluations on the test data\<close>

lemma test_ids:
  "cast_oid (JStr ''63dd624c3e7e112e07a5d032'') = Some 30906652776818921245331804210"
  "cast_oid (JStr ''63dd624c3e7e112e07a5d034'') = Some 30906652776818921245331804212"
  "cast_oid (JStr ''63dd4614fd4ca8d1372cf3b5'') = Some 30906519531288826207072482229"
  "oid_hex 30906652776818921245331804210 = ''63dd624c3e7e112e07a5d032''"
  by (simp_all add: cast_oid_def hex_val_def oid_hex_def hex_digits_numeral hex_char_def char_of_eq_iff)

lemma test_store_lookup:
  "store_map test_store 30906652776818921245331804210 = Some demo_issue"
  "store_map test_store 30906652776818921245331804212 = Some (demo_issue\<lparr>issue_title := ''Func Test 2''\<rparr>)"
  "store_map test_store 30906519531288826207072482229 = None"
  by (simp_all add: store_map_def test_store_def)

lemma test_bodies_wf:
  "obj_wf test_put_one_field" "obj_wf test_put_multiple" "obj_wf test_put_invalid_id"
  "obj_wf test_put_no_fields"
  by (simp_all add: obj_wf_def test_put_one_field_def test_put_multiple_def test_put_invalid_id_def
      test_put_no_fields_def)

lemma test_put_updates:
  "cast_update (put_patch 3000 ''apitest'' test_put_one_field)
      = Inr [(''status_text'', FStr ''Test complete''), (''project'', FStr ''apitest''), (''updated_on'', FDate 3000)]"
  "cast_update (put_patch 3000 ''apitest'' test_put_multiple)
      = Inr [(''status_text'', FStr ''Test complete and will be closed''), (''project'', FStr ''apitest''),
             (''updated_on'', FDate 3000)]"
  "cast_update (put_patch 3000 ''apitest'' test_put_invalid_id)
      = Inr [(''status_text'', FStr ''Test complete''), (''project'', FStr ''apitest''), (''updated_on'', FDate 3000)]"
  by (simp_all add: put_patch_def strip_falsy_def obj_keys_def test_put_one_field_def test_put_multiple_def
      test_put_invalid_id_def obj_set_def obj_has_def schema_path_def max_time_def obj_delete_def)

section \<open>PUT claims\<close>

lemma issue_put_success:
  assumes "obj_wf body" and "cast_oid (obj_get body ''_id'') = Some i"
    and "(k, v) \<in> set body" and "k \<noteq> ''_id''" and "js_truthy v"
    and "store_map s i = Some d" and "cast_update (put_patch now proj body) = Inr us"
  shows "issue_put now proj body s =
      (ResultId ''successfully updated'' (JStr (oid_hex i)), s\<lparr>docs := update_doc i (apply_update us) (docs s)\<rparr>)"
proof -
  have id: "js_truthy (obj_get body ''_id'')" using assms(2) by (rule cast_oid_truthy)
  have guard: "length (obj_keys (strip_falsy body)) \<noteq> 1"
    using assms(1) id assms(3-5) by (rule strip_has_field)
  have pid: "obj_get (put_patch now proj body) ''_id'' = obj_get body ''_id''"
    using assms(1) id by (rule put_patch_id)
  have "store_find_by_id_and_update (obj_get (put_patch now proj body) ''_id'') (put_patch now proj body) s
      = Inr (Some (i, d), s\<lparr>docs := update_doc i (apply_update us) (docs s)\<rparr>)"
    unfolding pid using assms(2,7,6) by (rule find_by_id_and_update_cases(4))
  then show ?thesis using id guard by (simp add: issue_put_def)
qed

text \<open>C13. Updating a stored issue with at least one truthy field besides
  \<^verbatim>\<open>_id\<close> applies the cast update document to exactly that issue and answers
  \<^verbatim>\<open>{result: 'successfully updated', _id}\<close> with the stored identifier.\<close>

theorem issue_put_updates:
  assumes "obj_wf body" and "cast_oid (obj_get body ''_id'') = Some i"
    and "(k, v) \<in> set body" and "k \<noteq> ''_id''" and "js_truthy v"
    and "store_map s i = Some d" and "cast_update (put_patch now proj body) = Inr us"
  shows "issue_put now proj body s =
      (ResultId ''successfully updated'' (JStr (oid_hex i)), s\<lparr>docs := update_doc i (apply_update us) (docs s)\<rparr>)
    \<and> store_map (s\<lparr>docs := update_doc i (apply_update us) (docs s)\<rparr>) = (store_map s)(i \<mapsto> apply_update us d)"
  using issue_put_success [OF assms] assms(6)
  by (simp add: store_map_def map_of_update_doc fun_eq_iff)

theorem issue_put_updates_witness:
  "issue_put 3000 ''apitest'' test_put_one_field test_store =
      (ResultId ''successfully updated'' (JStr ''63dd624c3e7e112e07a5d032''),
       test_store\<lparr>docs := update_doc 30906652776818921245331804210
         (apply_update [(''status_text'', FStr ''Test complete''), (''project'', FStr ''apitest''),
                        (''updated_on'', FDate 3000)]) (docs test_store)\<rparr>)
    \<and> store_map (test_store\<lparr>docs := update_doc 30906652776818921245331804210
         (apply_update [(''status_text'', FStr ''Test complete''), (''project'', FStr ''apitest''),
                        (''updated_on'', FDate 3000)]) (docs test_store)\<rparr>)
      = (store_map test_store)(30906652776818921245331804210 \<mapsto>
           apply_update [(''status_text'', FStr ''Test complete''), (''project'', FStr ''apitest''),
                         (''updated_on'', FDate 3000)] demo_issue)"
proof -
  have c: "cast_oid (obj_get test_put_one_field ''_id'') = Some 30906652776818921245331804210"
    by (simp add: test_put_one_field_def test_ids)
  have f: "(''status_text'', JStr ''Test complete'') \<in> set test_put_one_field"
    by (simp add: test_put_one_field_def)
  show ?thesis
    using issue_put_updates [OF test_bodies_wf(1) c f _ _ test_store_lookup(1) test_put_updates(1)]
      test_ids(4) by simp
qed

text \<open>C14. A successful update forces \<^verbatim>\<open>project\<close> to the path segment and
  \<^verbatim>\<open>updated_on\<close> to the time of the request, whatever the body says.\<close>

theorem issue_put_project_time:
  assumes "obj_wf body" and "cast_update (put_patch now proj body) = Inr us"
  shows "project (apply_update us d) = proj \<and> updated_on (apply_update us d) = now"
  using put_patch_project [OF assms] put_patch_updated_on [OF assms] by simp

theorem issue_put_project_time_witness:
  "project (apply_update [(''status_text'', FStr ''Test complete''), (''project'', FStr ''apitest''),
       (''updated_on'', FDate 3000)] (demo_issue\<lparr>project := ''other''\<rparr>)) = ''apitest''
   \<and> updated_on (apply_update [(''status_text'', FStr ''Test complete''), (''project'', FStr ''apitest''),
       (''updated_on'', FDate 3000)] (demo_issue\<lparr>project := ''other''\<rparr>)) = 3000"
  using issue_put_project_time [OF test_bodies_wf(1) test_put_updates(1), of "demo_issue\<lparr>project := ''other''\<rparr>"] .

text \<open>C15. A successful update sets every other schema field the body gives a truthy
  value to that value cast to the field's type, and leaves every field the body omits
  or gives a falsy value unchanged.\<close>

theorem issue_put_fields:
  assumes "obj_wf body" and "cast_update (put_patch now proj body) = Inr us"
    and "k \<noteq> ''project''" and "k \<noteq> ''updated_on''" and "schema_path k = Some t"
  shows "get_field k (apply_update us d) =
    (if js_truthy (obj_get body k) then cast_value t (obj_get body k) else get_field k d)"
  using put_patch_apply [OF assms(1,2), of k d] assms(3-5) by simp

theorem issue_put_fields_witness:
  "get_field ''status_text'' (apply_update [(''status_text'', FStr ''Test complete''),
       (''project'', FStr ''apitest''), (''updated_on'', FDate 3000)] demo_issue)
     = Some (FStr ''Test complete'')
   \<and> get_field ''assigned_to'' (apply_update [(''status_text'', FStr ''Test complete''),
       (''project'', FStr ''apitest''), (''updated_on'', FDate 3000)] demo_issue)
     = get_field ''assigned_to'' demo_issue"
proof -
  have st: "schema_path ''status_text'' = Some TString" "schema_path ''assigned_to'' = Some TString"
    by (simp_all add: schema_path_def)
  show ?thesis
    using issue_put_fields [OF test_bodies_wf(1) test_put_updates(1) _ _ st(1), of demo_issue]
      issue_put_fields [OF test_bodies_wf(1) test_put_updates(1) _ _ st(2), of demo_issue]
    by (simp add: test_put_one_field_def)
qed

text \<open>C16. Updating with no (or a falsy) \<^verbatim>\<open>_id\<close> answers
  \<^verbatim>\<open>{error: 'missing _id'}\<close> and changes nothing.\<close>

theorem issue_put_missing_id:
  "\<not> js_truthy (obj_get body ''_id'') \<Longrightarrow> issue_put now proj body s = (ErrorMsg ''missing _id'', s)"
  by (simp add: issue_put_def)

theorem issue_put_missing_id_witness:
  "issue_put 3000 ''apitest'' test_put_missing_id test_store = (ErrorMsg ''missing _id'', test_store)"
  by (rule issue_put_missing_id) (simp add: test_put_missing_id_def)

text \<open>C17. Updating with an \<^verbatim>\<open>_id\<close> and no other truthy field answers
  \<^verbatim>\<open>{error: 'no update field(s) sent', _id}\<close> echoing the identifier and changes
  nothing.\<close>

theorem issue_put_no_fields:
  assumes "obj_wf body" and "js_truthy (obj_get body ''_id'')"
    and "list_all (\<lambda>(k, v). k = ''_id'' \<or> \<not> js_truthy v) body"
  shows "issue_put now proj body s = (ErrorId ''no update field(s) sent'' (obj_get body ''_id''), s)"
  using assms strip_only_id [OF assms] by (simp add: issue_put_def obj_keys_def)

theorem issue_put_no_fields_witness:
  "issue_put 3000 ''apitest'' test_put_no_fields test_store
     = (ErrorId ''no update field(s) sent'' (JStr ''63dd624c3e7e112e07a5d034''), test_store)"
  using issue_put_no_fields [OF test_bodies_wf(4)] by (simp add: test_put_no_fields_def)

text \<open>C18. Updating a well-formed identifier that no issue has answers
  \<^verbatim>\<open>{error: 'could not update', _id}\<close> and changes nothing.\<close>

theorem issue_put_not_found:
  assumes "obj_wf body" and "cast_oid (obj_get body ''_id'') = Some i"
    and "(k, v) \<in> set body" and "k \<noteq> ''_id''" and "js_truthy v"
    and "store_map s i = None" and "cast_update (put_patch now proj body) = Inr us"
  shows "issue_put now proj body s = (ErrorId ''could not update'' (obj_get body ''_id''), s)"
proof -
  have id: "js_truthy (obj_get body ''_id'')" using assms(2) by (rule cast_oid_truthy)
  have guard: "length (obj_keys (strip_falsy body)) \<noteq> 1"
    using assms(1) id assms(3-5) by (rule strip_has_field)
  have pid: "obj_get (put_patch now proj body) ''_id'' = obj_get body ''_id''"
    using assms(1) id by (rule put_patch_id)
  have "store_find_by_id_and_update (obj_get (put_patch now proj body) ''_id'') (put_patch now proj body) s
      = Inr (None, s)"
    unfolding pid using assms(2,7,6) by (rule find_by_id_and_update_cases(3))
  then show ?thesis using id guard pid by (simp add: issue_put_def)
qed

theorem issue_put_not_found_witness:
  "issue_put 3000 ''apitest'' test_put_invalid_id test_store
     = (ErrorId ''could not update'' (JStr ''63dd4614fd4ca8d1372cf3b5''), test_store)"
proof -
  have c: "cast_oid (obj_get test_put_invalid_id ''_id'') = Some 30906519531288826207072482229"
    by (simp add: test_put_invalid_id_def test_ids)
  have f: "(''status_text'', JStr ''Test complete'') \<in> set test_put_invalid_id"
    by (simp add: test_put_invalid_id_def)
  show ?thesis
    using issue_put_not_found [OF test_bodies_wf(3) c f _ _ test_store_lookup(3) test_put_updates(3)]
    by (simp add: test_put_invalid_id_def)
qed

text \<open>C19. A malformed identifier is not treated as not-found: the store's cast fails,
  the handler logs the error and never answers (the specification asks for
  \<^verbatim>\<open>{error: 'could not update', _id}\<close>).\<close>

theorem issue_put_malformed:
  assumes "obj_wf body" and "js_truthy (obj_get body ''_id'')" and "cast_oid (obj_get body ''_id'') = None"
    and "(k, v) \<in> set body" and "k \<noteq> ''_id''" and "js_truthy v"
  shows "issue_put now proj body s = (NoResponse, s)"
proof -
  have guard: "length (obj_keys (strip_falsy body)) \<noteq> 1"
    using assms(1,2,4-6) by (rule strip_has_field)
  have pid: "obj_get (put_patch now proj body) ''_id'' = obj_get body ''_id''"
    using assms(1,2) by (rule put_patch_id)
  have "store_find_by_id_and_update (obj_get (put_patch now proj body) ''_id'') (put_patch now proj body) s
      = Inl (CastError ''_id'')"
    unfolding pid using assms(3) by (rule find_by_id_and_update_cases(1))
  then show ?thesis using assms(2) guard by (simp add: issue_put_def)
qed

theorem issue_put_malformed_witness:
  "issue_put 3000 ''apitest'' [(''_id'', JStr ''abc''), (''status_text'', JStr ''x'')] test_store
     = (NoResponse, test_store)"
  by (rule issue_put_malformed [of _ "''status_text''" "JStr ''x''"]) (simp_all add: obj_wf_def cast_oid_def)

text \<open>C20. PUT closes an open issue only when the body's \<^verbatim>\<open>open\<close> is one of the
  strings \<^verbatim>\<open>'false'\<close>, \<^verbatim>\<open>'0'\<close>, \<^verbatim>\<open>'no'\<close>: the JSON value
  \<^verbatim>\<open>false\<close> a client sends (the second PUT test sends it) and the number
  \<^verbatim>\<open>0\<close> are falsy, so the loop deletes them before the update and the issue
  stays open.\<close>

theorem issue_put_cannot_close:
  assumes "obj_wf body" and "cast_update (put_patch now proj body) = Inr us"
    and "is_open d" and "\<not> is_open (apply_update us d)"
  shows "obj_get body ''open'' \<in> {JStr ''false'', JStr ''0'', JStr ''no''}"
proof -
  have "get_field ''open'' (apply_update us d) = Some (FBool False)"
    using assms(4) by (simp add: get_field_def)
  moreover have "get_field ''open'' (apply_update us d) =
      (if js_truthy (obj_get body ''open'') then cast_value TBoolean (obj_get body ''open'')
       else get_field ''open'' d)"
    using put_patch_apply [OF assms(1,2), of "''open''" d] by (simp add: schema_path_def)
  ultimately have t: "js_truthy (obj_get body ''open'')"
    and c: "map_option FBool (cast_boolean (obj_get body ''open'')) = Some (FBool False)"
    using assms(3) by (auto simp: get_field_def split: if_splits)
  from c have "cast_boolean (obj_get body ''open'') = Some False"
    by (cases "cast_boolean (obj_get body ''open'')") simp_all
  with t show ?thesis
    by (cases "obj_get body ''open''") (auto split: if_splits)
qed

theorem issue_put_cannot_close_witness:
  "obj_wf [(''_id'', JStr ''63dd624c3e7e112e07a5d034''), (''open'', JStr ''false'')]
   \<and> cast_update (put_patch 3000 ''apitest'' [(''_id'', JStr ''63dd624c3e7e112e07a5d034''), (''open'', JStr ''false'')])
     = Inr [(''open'', FBool False), (''project'', FStr ''apitest''), (''updated_on'', FDate 3000)]
   \<and> is_open demo_issue
   \<and> \<not> is_open (apply_update [(''open'', FBool False), (''project'', FStr ''apitest''), (''updated_on'', FDate 3000)] demo_issue)
   \<and> JStr ''false'' \<in> {JStr ''false'', JStr ''0'', JStr ''no''}"
proof -
  have wf: "obj_wf [(''_id'', JStr ''63dd624c3e7e112e07a5d034''), (''open'', JStr ''false'')]"
    by (simp add: obj_wf_def)
  have u: "cast_update (put_patch 3000 ''apitest'' [(''_id'', JStr ''63dd624c3e7e112e07a5d034''), (''open'', JStr ''false'')])
     = Inr [(''open'', FBool False), (''project'', FStr ''apitest''), (''updated_on'', FDate 3000)]"
    by (simp add: put_patch_def strip_falsy_def obj_keys_def obj_set_def obj_has_def schema_path_def max_time_def)
  have o: "is_open demo_issue" "\<not> is_open (apply_update [(''open'', FBool False), (''project'', FStr ''apitest''),
      (''updated_on'', FDate 3000)] demo_issue)"
    by (simp_all add: demo_issue_def)
  show ?thesis using issue_put_cannot_close [OF wf u o] wf u o by simp
qed

section \<open>The falsy-deleting loop\<close>

text \<open>C28. Equivalence of the \<^verbatim>\<open>for ... in\<close> loop of lines 92--96 with its declarative
  reading: whatever order the engine enumerates the keys in, the loop leaves exactly the
  truthy properties, in their original order.\<close>

theorem strip_falsy_any_order:
  assumes "obj_wf ob" and "set ks = set (obj_keys ob)"
  shows "strip_falsy_loop ks ob = filter (\<lambda>(k, v). js_truthy v) ob"
proof -
  have "filter (\<lambda>(k, v). k \<notin> set ks \<or> js_truthy v) ob = filter (\<lambda>(k, v). js_truthy v) ob"
    using assms(2) by (intro filter_cong) (force simp: obj_keys_def)+
  with strip_falsy_loop_filter [OF assms(1)] show ?thesis by simp
qed

theorem strip_falsy_any_order_witness:
  "strip_falsy_loop [''open'', ''_id'', ''status_text''] test_put_multiple
     = [(''_id'', JStr ''63dd624c3e7e112e07a5d034''), (''status_text'', JStr ''Test complete and will be closed'')]"
proof -
  have k: "set [''open'', ''_id'', ''status_text''] = set (obj_keys test_put_multiple)"
    by (auto simp: obj_keys_def test_put_multiple_def)
  show ?thesis using strip_falsy_any_order [OF test_bodies_wf(2) k] by (simp add: test_put_multiple_def)
qed

end
