(* ===== verification/Server.thy ===== *)
theory Server
  imports Handlers
begin

text \<open>
  The route of \<^verbatim>\<open>src/routes/api.js\<close> (\<^verbatim>\<open>app.route('/api/issues/:project')\<close>,
  lines 13--131) as one step function from a request to the response and the new
  store, and the server's runs as reachable states. A request carries its method, the
  path segment and the parsed query or body; JSON and query-string parsing give objects
  with distinct keys (\<open>request_wf\<close>). The clock is the time \<^verbatim>\<open>new Date()\<close> reads;
  requests are handled one after the other at non-decreasing times. The store is the
  only state kept between requests.

  Lemmas: every stored \<^verbatim>\<open>updated_on\<close> lies in the past; the specification's invariant
  \<^verbatim>\<open>updated_on \<ge> created_on\<close> is not kept, because a PUT body may set
  \<^verbatim>\<open>created_on\<close>.
\<close>

datatype request =
    Get string jsobj
  | Post string jsobj
  | Put string jsobj
  | Delete string jsobj

fun handle :: "int \<Rightarrow> request \<Rightarrow> store \<Rightarrow> response \<times> store" where
  "handle now (Get proj q) s = (issue_get proj q s, s)"
| "handle now (Post proj b) s = issue_post now proj b s"
| "handle now (Put proj b) s = issue_put now proj b s"
| "handle now (Delete proj b) s = issue_delete proj b s"

fun request_wf :: "request \<Rightarrow> bool" where
  "request_wf (Get proj q) = obj_wf q"
| "request_wf (Post proj b) = obj_wf b"
| "request_wf (Put proj b) = obj_wf b"
| "request_wf (Delete proj b) = obj_wf b"

text \<open>\<open>reach t s\<close>: the store \<open>s\<close> results from a run whose last request was
  handled at time \<open>t\<close> (or from the empty collection).\<close>

inductive reach :: "int \<Rightarrow> store \<Rightarrow> bool" where
  init: "reach t empty_store"
| step: "reach t s \<Longrightarrow> t \<le> t' \<Longrightarrow> request_wf r \<Longrightarrow> reach t' (snd (handle t' r s))"

text \<open>Every stored document was last written no later than \<open>t\<close>.\<close>

definition times_ok :: "int \<Rightarrow> store \<Rightarrow> bool" where
  "times_ok t s = list_all (\<lambda>jd. updated_on (snd jd) \<le> t) (docs s)"

subsection \<open>Write times lie in the past\<close>

lemma times_ok_mono: "times_ok t s \<Longrightarrow> t \<le> t' \<Longrightarrow> times_ok t' s"
  by (auto simp: times_ok_def list_all_iff)

lemma list_all_update_doc:
  "list_all P ds \<Longrightarrow> (\<And>d. P (i, d) \<Longrightarrow> P (i, f d)) \<Longrightarrow> list_all P (update_doc i f ds)"
  by (induction ds) auto

lemma list_all_delete_doc: "list_all P ds \<Longrightarrow> list_all P (delete_doc i ds)"
  by (induction ds) auto

lemma new_issue_updated_on: "new_issue now p ti tx b a st = Some d \<Longrightarrow> updated_on d = now"
  by (auto simp: new_issue_def split: option.splits)

lemma issue_post_times: "times_ok c s \<Longrightarrow> now \<le> c \<Longrightarrow> times_ok c (snd (issue_post now proj b s))"
  by (auto simp: issue_post_def Let_def times_ok_def store_insert_def new_issue_updated_on
      split: option.splits)

lemma issue_put_cases:
  obtains (same) "snd (issue_put now proj b s) = s"
  | (upd) i d us where "js_truthy (obj_get b ''_id'')"
      "cast_oid (obj_get (put_patch now proj b) ''_id'') = Some i" "store_map s i = Some d"
      "cast_update (put_patch now proj b) = Inr us"
      "snd (issue_put now proj b s) = s\<lparr>docs := update_doc i (apply_update us) (docs s)\<rparr>"
proof -
  have "snd (issue_put now proj b s) = s \<or> (\<exists>i d us. js_truthy (obj_get b ''_id'')
      \<and> cast_oid (obj_get (put_patch now proj b) ''_id'') = Some i \<and> store_map s i = Some d
      \<and> cast_update (put_patch now proj b) = Inr us
      \<and> snd (issue_put now proj b s) = s\<lparr>docs := update_doc i (apply_update us) (docs s)\<rparr>)"
    by (simp add: issue_put_def Let_def store_find_by_id_and_update_def store_map_def
        split: sum.split option.split prod.split)
  then show ?thesis using that by blast
qed

lemma issue_delete_cases:
  obtains (same) "snd (issue_delete proj b s) = s"
  | (del) i where "cast_oid (obj_get b ''_id'') = Some i" "store_map s i \<noteq> None"
      "snd (issue_delete proj b s) = s\<lparr>docs := delete_doc i (docs s)\<rparr>"
proof -
  have "snd (issue_delete proj b s) = s \<or> (\<exists>i. cast_oid (obj_get b ''_id'') = Some i
      \<and> store_map s i \<noteq> None \<and> snd (issue_delete proj b s) = s\<lparr>docs := delete_doc i (docs s)\<rparr>)"
    by (simp add: issue_delete_def Let_def store_find_by_id_and_delete_def store_map_def
        split: sum.split option.split prod.split)
  then show ?thesis using that by blast
qed

lemma issue_post_cases:
  obtains (same) "snd (issue_post now proj b s) = s"
  | (ins) d where "new_issue now (JStr proj) (obj_get b ''issue_title'') (obj_get b ''issue_text'')
        (obj_get b ''created_by'') (js_or (obj_get b ''assigned_to'') (JStr ''''))
        (js_or (obj_get b ''status_text'') (JStr '''')) = Some d"
      "snd (issue_post now proj b s) = snd (store_insert d s)"
proof -
  have "snd (issue_post now proj b s) = s \<or> (\<exists>d. new_issue now (JStr proj) (obj_get b ''issue_title'')
        (obj_get b ''issue_text'') (obj_get b ''created_by'') (js_or (obj_get b ''assigned_to'') (JStr ''''))
        (js_or (obj_get b ''status_text'') (JStr '''')) = Some d
      \<and> snd (issue_post now proj b s) = snd (store_insert d s))"
    by (simp add: issue_post_def Let_def split: option.split prod.split)
  then show ?thesis using that by blast
qed

lemma issue_put_times:
  assumes "times_ok c s" and "now \<le> c" and "obj_wf b"
  shows "times_ok c (snd (issue_put now proj b s))"
proof (cases rule: issue_put_cases [of now proj b s])
  case same
  with assms show ?thesis by simp
next
  case (upd i d us)
  have "updated_on (apply_update us d') \<le> c" for d'
    using put_patch_updated_on [OF assms(3) upd(4)] assms(2) by simp
  with assms(1) upd(5) show ?thesis
    by (simp add: times_ok_def list_all_update_doc)
qed

lemma issue_delete_times: "times_ok t s \<Longrightarrow> times_ok t (snd (issue_delete proj b s))"
  by (auto simp: issue_delete_def Let_def times_ok_def store_find_by_id_and_delete_def
      list_all_delete_doc split: sum.splits option.splits prod.splits)

lemma handle_times:
  "times_ok c s \<Longrightarrow> now \<le> c \<Longrightarrow> request_wf r \<Longrightarrow> times_ok c (snd (handle now r s))"
  by (cases r) (auto intro: issue_post_times issue_put_times issue_delete_times)

subsection \<open>Reachable stores\<close>

text \<open>C21. No write time lies in the future: in every store reached by a run whose last
  request was handled at time \<open>t\<close>, every issue's \<^verbatim>\<open>updated_on\<close> is at most
  \<open>t\<close>.\<close>

theorem reach_updated_on_past: "reach t s \<Longrightarrow> list_all (\<lambda>jd. updated_on (snd jd) \<le> t) (docs s)"
proof -
  assume "reach t s"
  then have "times_ok t s"
  proof (induction rule: reach.induct)
    case (init t)
    show ?case by (simp add: times_ok_def empty_store_def)
  next
    case (step t s t' r)
    then show ?case using times_ok_mono [of t s t'] by (simp add: handle_times)
  qed
  then show ?thesis by (simp add: times_ok_def)
qed

theorem reach_updated_on_past_witness:
  "reach 5 (snd (handle 5 (Post ''apitest'' test_post_every_field) empty_store))
   \<and> list_all (\<lambda>jd. updated_on (snd jd) \<le> 5) (docs (snd (handle 5 (Post ''apitest'' test_post_every_field) empty_store)))"
proof -
  have r: "reach 5 (snd (handle 5 (Post ''apitest'' test_post_every_field) empty_store))"
    by (rule reach.step [OF reach.init [of 0]]) (simp_all add: test_post_every_field_def obj_wf_def)
  show ?thesis using r reach_updated_on_past [OF r] by simp
qed

text \<open>C22. The specification's invariant \<^verbatim>\<open>updated_on \<ge> created_on\<close> (and
  \<^verbatim>\<open>created_on\<close> never changing after creation) does not hold: the PUT handler
  passes every truthy body field to the store, \<^verbatim>\<open>created_on\<close> included, so a
  client can move the creation date past the last update. Here an issue created at
  time 1 is given \<^verbatim>\<open>created_on: 5000\<close> by a PUT at time 2.\<close>

theorem created_on_after_updated_on:
  "\<exists>t s jd. reach t s \<and> jd \<in> set (docs s) \<and> updated_on (snd jd) < created_on (snd jd)"
proof -
  define s1 where "s1 = snd (handle 1 (Post ''apitest'' test_post_every_field) empty_store)"
  define body where "body = [(''_id'', JStr ''000000000000000000000001''), (''created_on'', JNum 5000)]"
  define s2 where "s2 = snd (handle 2 (Put ''apitest'' body) s1)"
  have r1: "reach 1 s1"
    unfolding s1_def by (rule reach.step [OF reach.init [of 0]]) (simp_all add: test_post_every_field_def obj_wf_def)
  have r2: "reach 2 s2"
    unfolding s2_def by (rule reach.step [OF r1]) (simp_all add: body_def obj_wf_def)
  have d1: "docs s1 = [(1, demo_issue\<lparr>created_on := 1, updated_on := 1\<rparr>)]"
    by (simp add: s1_def issue_post_def Let_def new_issue_def js_or_def store_insert_def empty_store_def
        test_post_every_field_def demo_issue_def)
  have "docs s2 = [(1, demo_issue\<lparr>created_on := 5000, updated_on := 2\<rparr>)]"
    by (simp add: s2_def d1 body_def issue_put_def Let_def strip_falsy_def obj_keys_def put_patch_def
        obj_set_def obj_has_def store_find_by_id_and_update_def cast_oid_def hex_val_def
        schema_path_def max_time_def demo_issue_def)
  with r2 show ?thesis by force
qed

end
