(* ===== verification/Async.thy ===== *)
theory Async
  imports Server
begin

text \<open>
  The handlers of \<^verbatim>\<open>src/routes/api.js\<close> as the code runs them: each handler runs
  synchronously up to its one store call (\<^verbatim>\<open>Issue.find\<close>, \<^verbatim>\<open>newIssue.save\<close>,
  \<^verbatim>\<open>Issue.findByIdAndUpdate\<close>, \<^verbatim>\<open>Issue.findByIdAndDelete\<close>), or answers before it;
  the store later runs the call and the callback builds the response. \<open>dispatch\<close> is
  the synchronous part of the four handlers: it answers a validation error at once
  (\<open>Inl\<close>) or issues a store call (\<open>Inr\<close>). A \<open>store_call\<close> holds the call's
  arguments, which are also all the callback reads of the handler's variables (the
  identifier echoed by PUT and DELETE is the one passed to the store). \<open>run_call\<close>
  is the store call followed by its callback.

  Lemmas: the synchronous part reads no state, and running it then the call is the
  handler of \<open>Handlers\<close> (\<open>handle_dispatch\<close>); a request goes unanswered exactly
  when its call does not cast, whatever the store holds (\<open>handle_no_response_iff\<close>).
\<close>

datatype store_call =
    CallFind jsobj
  | CallSave "issue option"
  | CallUpdate jsval jsobj
  | CallDelete jsval

fun dispatch :: "int \<Rightarrow> request \<Rightarrow> response + store_call" where
  "dispatch now (Get proj query) = Inr (CallFind (obj_set ''project'' (JStr proj) query))"
| "dispatch now (Post proj body) =
     (let title = obj_get body ''issue_title''; text = obj_get body ''issue_text'';
          by = obj_get body ''created_by''; assigned = obj_get body ''assigned_to'';
          status = obj_get body ''status_text'' in
      if \<not> js_truthy title \<or> \<not> js_truthy text \<or> \<not> js_truthy by
      then Inl (ErrorMsg ''required field(s) missing'')
      else Inr (CallSave (new_issue now (JStr proj) title text by
                           (js_or assigned (JStr '''')) (js_or status (JStr '''')))))"
| "dispatch now (Put proj body) =
     (if \<not> js_truthy (obj_get body ''_id'') then Inl (ErrorMsg ''missing _id'')
      else
        (let u = strip_falsy body in
         if length (obj_keys u) = 1 \<and> js_truthy (obj_get u ''_id'')
         then Inl (ErrorId ''no update field(s) sent'' (obj_get u ''_id''))
         else (let u' = put_patch now proj body in Inr (CallUpdate (obj_get u' ''_id'') u'))))"
| "dispatch now (Delete proj body) =
     (let iss = obj_get body ''_id'' in
      if \<not> js_truthy iss then Inl (ErrorMsg ''missing _id'') else Inr (CallDelete iss))"

text \<open>The store call and its callback. A document that did not cast makes
  \<^verbatim>\<open>save\<close> fail with a validation error.\<close>

fun run_call :: "store_call \<Rightarrow> store \<Rightarrow> response \<times> store" where
  "run_call (CallFind q) s =
     (case store_find q s of
        Inl err \<Rightarrow> (NoResponse, s)
      | Inr issues \<Rightarrow>
          (if length issues = 0 then NoIssuesFound else IssueList (map issue_json_of issues), s))"
| "run_call (CallSave None) s = (NoResponse, s)"
| "run_call (CallSave (Some d)) s =
     (case store_insert d s of (i, s') \<Rightarrow> (IssueCreated (issue_json_of (i, d)), s'))"
| "run_call (CallUpdate idv u) s =
     (case store_find_by_id_and_update idv u s of
        Inl err \<Rightarrow> (NoResponse, s)
      | Inr (None, s') \<Rightarrow> (ErrorId ''could not update'' idv, s')
      | Inr (Some (i, d), s') \<Rightarrow> (ResultId ''successfully updated'' (JStr (oid_hex i)), s'))"
| "run_call (CallDelete iss) s =
     (case store_find_by_id_and_delete iss s of
        Inl err \<Rightarrow> (NoResponse, s)
      | Inr (None, s') \<Rightarrow> (ErrorId ''could not delete'' iss, s')
      | Inr (Some data, s') \<Rightarrow> (ResultId ''successfully deleted'' iss, s'))"

text \<open>The casts a store call makes before it touches the collection, and whether one
  of them fails.\<close>

fun call_fails :: "store_call \<Rightarrow> bool" where
  "call_fails (CallFind q) = isl (cast_filter q)"
| "call_fails (CallSave d) = (d = None)"
| "call_fails (CallUpdate idv u) = (cast_oid idv = None \<or> isl (cast_update u))"
| "call_fails (CallDelete iss) = (cast_oid iss = None)"

subsection \<open>Lemmas\<close>

lemma run_call_NoResponse: "fst (run_call c s) = NoResponse \<longleftrightarrow> call_fails c"
proof (cases c)
  case (CallFind q)
  then show ?thesis by (simp add: store_find_def split: sum.split)
next
  case (CallSave d)
  then show ?thesis by (cases d) (simp_all add: store_insert_def)
next
  case (CallUpdate idv u)
  then show ?thesis
    by (simp add: store_find_by_id_and_update_def isl_def
        split: option.split sum.split prod.split)
next
  case (CallDelete iss)
  then show ?thesis
    by (simp add: store_find_by_id_and_delete_def split: option.split prod.split)
qed

lemma dispatch_NoResponse: "dispatch now r \<noteq> Inl NoResponse"
  by (cases r) (simp_all add: Let_def)

text \<open>The handler as its synchronous part followed by its store call.\<close>

lemma handle_dispatch:
  "handle now r s = (case dispatch now r of Inl resp \<Rightarrow> (resp, s) | Inr c \<Rightarrow> run_call c s)"
proof (cases r)
  case (Get proj q)
  then show ?thesis by (simp add: issue_get_def split: sum.split)
next
  case (Post proj b)
  then show ?thesis by (simp add: issue_post_def Let_def split: option.split)
next
  case (Put proj b)
  then show ?thesis by (simp add: issue_put_def Let_def)
next
  case (Delete proj b)
  then show ?thesis by (simp add: issue_delete_def Let_def)
qed

text \<open>C31. A request is left unanswered exactly when it passes the handler's
  validation and its store call fails to cast (an identifier that is not 24 hex digits,
  a filter or update value of the wrong type, a created issue that does not cast); it
  does not depend on what the store holds.\<close>

theorem handle_no_response_iff:
  "fst (handle now r s) = NoResponse \<longleftrightarrow>
     (case dispatch now r of Inl resp \<Rightarrow> False | Inr c \<Rightarrow> call_fails c)"
  using dispatch_NoResponse [of now r]
  by (auto simp: handle_dispatch run_call_NoResponse split: sum.split)

theorem handle_no_response_iff_witness:
  "fst (handle 0 (Delete ''apitest'' [(''_id'', JStr ''not-an-id'')]) test_store) = NoResponse
   \<and> fst (handle 0 (Delete ''apitest'' test_delete_invalid_id) test_store) \<noteq> NoResponse"
proof -
  have "call_fails (CallDelete (JStr ''not-an-id''))" by (simp add: cast_oid_def)
  moreover have "\<not> call_fails (CallDelete (JStr ''63dd4614fd4ca8d1372cf3b5''))"
    by (simp add: cast_oid_def hex_val_def)
  ultimately show ?thesis
    using handle_no_response_iff [of 0 "Delete ''apitest'' [(''_id'', JStr ''not-an-id'')]" test_store]
      handle_no_response_iff [of 0 "Delete ''apitest'' test_delete_invalid_id" test_store]
    by (simp add: test_delete_invalid_id_def)
qed

end
