(* ===== verification/Concurrent.thy ===== *)
theory Concurrent
  imports Async
begin

text \<open>
  The server as it runs: \<^verbatim>\<open>module.exports = function(app)\<close> (lines 7--13 of
  \<^verbatim>\<open>src/routes/api.js\<close>) starts \<^verbatim>\<open>mongoose.connect\<close>, whose failure is only
  logged (\<^verbatim>\<open>.catch(err => console.log(err))\<close>), and registers the route. Requests
  then arrive at any time and interleave: each runs its synchronous part
  (\<open>dispatch\<close>, theory \<open>Async\<close>) when it arrives, reading the clock there, and
  either answers at once or leaves a store call in flight; the calls in flight complete
  in any order, each atomically. The connection is one of \<open>conn\<close>: while it is being
  established the store buffers every call; once connected a call runs against the
  collection; once the connection has failed every buffered or later call ends with
  the buffering time-out error, which the callback logs (\<open>NoResponse\<close>).

  The state is the record \<open>server\<close>: the connection, the clock (the time of the last
  arrival), the collection, the calls in flight (request number, arrival time,
  request, store call) and the outcome of every finished request in the order the
  requests finished.

  Lemmas: under every interleaving no stored \<^verbatim>\<open>updated_on\<close> lies after the clock
  (C34), because each handler reads the clock before its store call; and the store
  applies updates in the order their calls complete, so of two PUTs of one issue the
  one that arrived later can be lost (C35).
\<close>

datatype conn = Connecting | Connected | ConnectFailed

record server =
  conn :: conn
  clock :: int
  db :: store
  inflight :: "(nat \<times> int \<times> request \<times> store_call) list"
  finished :: "(nat \<times> response) list"

text \<open>The server right after \<^verbatim>\<open>module.exports(app)\<close>: connecting, to a database
  that holds \<open>s0\<close>.\<close>

definition init_server :: "int \<Rightarrow> store \<Rightarrow> server" where
  "init_server t0 s0 = \<lparr>conn = Connecting, clock = t0, db = s0, inflight = [], finished = []\<rparr>"

text \<open>A store call and its callback over the connection \<open>cn\<close>.\<close>

definition run_call_on :: "conn \<Rightarrow> store_call \<Rightarrow> store \<Rightarrow> response \<times> store" where
  "run_call_on cn c s = (if cn = Connected then run_call c s else (NoResponse, s))"

definition request_ids :: "server \<Rightarrow> nat list" where
  "request_ids s = map fst (inflight s) @ map fst (finished s)"

inductive sstep :: "server \<Rightarrow> server \<Rightarrow> bool" where
  connect_ok: "conn s = Connecting \<Longrightarrow> sstep s (s\<lparr>conn := Connected\<rparr>)"
| connect_fail: "conn s = Connecting \<Longrightarrow> sstep s (s\<lparr>conn := ConnectFailed\<rparr>)"
| answer: "clock s \<le> t \<Longrightarrow> request_wf r \<Longrightarrow> k \<notin> set (request_ids s) \<Longrightarrow>
    dispatch t r = Inl resp \<Longrightarrow> sstep s (s\<lparr>clock := t, finished := finished s @ [(k, resp)]\<rparr>)"
| call: "clock s \<le> t \<Longrightarrow> request_wf r \<Longrightarrow> k \<notin> set (request_ids s) \<Longrightarrow>
    dispatch t r = Inr c \<Longrightarrow> sstep s (s\<lparr>clock := t, inflight := inflight s @ [(k, t, r, c)]\<rparr>)"
| complete: "conn s \<noteq> Connecting \<Longrightarrow> (k, t, r, c) \<in> set (inflight s) \<Longrightarrow>
    run_call_on (conn s) c (db s) = (resp, st) \<Longrightarrow>
    sstep s (s\<lparr>db := st, inflight := remove1 (k, t, r, c) (inflight s),
               finished := finished s @ [(k, resp)]\<rparr>)"

text \<open>What the code keeps true between steps: every write time is at most the clock,
  and every call in flight is the one its well-formed request issued at a time no
  later than the clock.\<close>

definition server_times_inv :: "server \<Rightarrow> bool" where
  "server_times_inv s =
     (times_ok (clock s) (db s)
      \<and> list_all (\<lambda>(k, t, r, c). t \<le> clock s \<and> request_wf r \<and> dispatch t r = Inr c) (inflight s))"

subsection \<open>Write times under interleaving\<close>

lemma list_all_remove1: "list_all P xs \<Longrightarrow> list_all P (remove1 x xs)"
  by (induction xs) auto

lemma run_call_on_times:
  assumes "times_ok c st" and "t \<le> c" and "request_wf r" and "dispatch t r = Inr call"
  shows "times_ok c (snd (run_call_on cn call st))"
proof (cases "cn = Connected")
  case True
  have "snd (run_call call st) = snd (handle t r st)" using assms(4) by (simp add: handle_dispatch)
  with True assms(1-3) show ?thesis by (simp add: run_call_on_def handle_times)
next
  case False
  with assms(1) show ?thesis by (simp add: run_call_on_def)
qed

lemma sstep_times_inv: "sstep s s' \<Longrightarrow> server_times_inv s \<Longrightarrow> server_times_inv s'"
proof (induction rule: sstep.induct)
  case (answer s t r k resp)
  then show ?case by (auto simp: server_times_inv_def list_all_iff intro: times_ok_mono)
next
  case (call s t r k c)
  then show ?case by (auto simp: server_times_inv_def list_all_iff intro: times_ok_mono)
next
  case (complete s k t r c resp st)
  then have "t \<le> clock s" "request_wf r" "dispatch t r = Inr c"
    by (auto simp: server_times_inv_def list_all_iff)
  with complete have "times_ok (clock s) st"
    using run_call_on_times [of "clock s" "db s" t r c "conn s"] by (simp add: server_times_inv_def)
  with complete show ?case by (simp add: server_times_inv_def list_all_remove1)
qed (simp_all add: server_times_inv_def)

lemma call_then_complete:
  assumes "conn s \<noteq> Connecting" "clock s \<le> t" "request_wf r" "k \<notin> set (request_ids s)"
    and "dispatch t r = Inr c" and "inflight s = []"
  shows "sstep\<^sup>*\<^sup>* s (s\<lparr>clock := t, db := snd (run_call_on (conn s) c (db s)), inflight := [],
           finished := finished s @ [(k, fst (run_call_on (conn s) c (db s)))]\<rparr>)"
proof -
  let ?s1 = "s\<lparr>clock := t, inflight := inflight s @ [(k, t, r, c)]\<rparr>"
  have 1: "sstep s ?s1" using assms(2-5) by (rule sstep.call)
  obtain resp st where rc: "run_call_on (conn s) c (db s) = (resp, st)" by fastforce
  have "sstep ?s1 (?s1\<lparr>db := st, inflight := remove1 (k, t, r, c) (inflight ?s1),
               finished := finished ?s1 @ [(k, resp)]\<rparr>)"
    using assms(1) rc by (intro sstep.complete) simp_all
  then have 2: "sstep ?s1 (s\<lparr>clock := t, db := st, inflight := [], finished := finished s @ [(k, resp)]\<rparr>)"
    using assms(6) by simp
  from 1 2 rc show ?thesis by (simp add: converse_rtranclp_into_rtranclp)
qed

text \<open>C34. Interleaving does not put write times in the future: in every state of the
  server, reached from a database whose write times are at most the start time, every
  issue's \<^verbatim>\<open>updated_on\<close> is at most the time of the last arrival, although the
  calls in flight complete in any order.\<close>

theorem interleaved_updated_on_past:
  assumes "sstep\<^sup>*\<^sup>* (init_server t0 s0) s"
    and "list_all (\<lambda>jd. updated_on (snd jd) \<le> t0) (docs s0)"
  shows "list_all (\<lambda>jd. updated_on (snd jd) \<le> clock s) (docs (db s))"
proof -
  from assms(1) have "server_times_inv s"
  proof (induction rule: rtranclp_induct)
    case base
    with assms(2) show ?case by (simp add: server_times_inv_def init_server_def times_ok_def)
  next
    case (step s s')
    from step.hyps(2) step.IH show ?case by (rule sstep_times_inv)
  qed
  then show ?thesis by (simp add: server_times_inv_def times_ok_def)
qed

theorem interleaved_updated_on_past_witness:
  "sstep\<^sup>*\<^sup>* (init_server 0 empty_store)
     \<lparr>conn = Connected, clock = 1,
      db = snd (handle 1 (Post ''apitest'' test_post_every_field) empty_store), inflight = [],
      finished = [(1, fst (handle 1 (Post ''apitest'' test_post_every_field) empty_store))]\<rparr>
   \<and> list_all (\<lambda>jd. updated_on (snd jd) \<le> 0) (docs empty_store)
   \<and> list_all (\<lambda>jd. updated_on (snd jd) \<le> 1)
       (docs (snd (handle 1 (Post ''apitest'' test_post_every_field) empty_store)))"
proof -
  define R where "R = Post ''apitest'' test_post_every_field"
  define c where "c = projr (dispatch 1 R)"
  have c: "dispatch 1 R = Inr c"
    by (simp add: c_def R_def test_post_every_field_def Let_def)
  let ?s1 = "(init_server 0 empty_store)\<lparr>conn := Connected\<rparr>"
  have 1: "sstep (init_server 0 empty_store) ?s1" by (rule sstep.connect_ok) (simp add: init_server_def)
  have "sstep\<^sup>*\<^sup>* ?s1 (?s1\<lparr>clock := 1, db := snd (run_call_on (conn ?s1) c (db ?s1)),
           inflight := [], finished := finished ?s1 @ [(1, fst (run_call_on (conn ?s1) c (db ?s1)))]\<rparr>)"
    using c by (intro call_then_complete [where r = R])
      (simp_all add: init_server_def request_ids_def R_def test_post_every_field_def obj_wf_def)
  moreover have "run_call_on (conn ?s1) c (db ?s1) = handle 1 R empty_store"
    using c by (simp add: init_server_def run_call_on_def handle_dispatch)
  ultimately have run: "sstep\<^sup>*\<^sup>* (init_server 0 empty_store)
     \<lparr>conn = Connected, clock = 1, db = snd (handle 1 R empty_store), inflight = [],
      finished = [(1, fst (handle 1 R empty_store))]\<rparr>"
    using 1 by (simp add: init_server_def converse_rtranclp_into_rtranclp)
  have e: "list_all (\<lambda>jd. updated_on (snd jd) \<le> 0) (docs empty_store)" by (simp add: empty_store_def)
  from interleaved_updated_on_past [OF run e] run e show ?thesis by (simp add: R_def)
qed

text \<open>The PUT that sets only \<^verbatim>\<open>status_text\<close> of the issue with identifier 1.\<close>

lemma oid_one:
  "cast_oid (JStr ''000000000000000000000001'') = Some 1" "oid_hex 1 = ''000000000000000000000001''"
  by (simp_all add: cast_oid_def hex_val_def oid_hex_def hex_digits_numeral hex_char_def char_of_eq_iff)

lemma put_patch_status:
  "v \<noteq> [] \<Longrightarrow> put_patch t proj [(''_id'', JStr ''000000000000000000000001''), (''status_text'', JStr v)]
     = [(''_id'', JStr ''000000000000000000000001''), (''status_text'', JStr v), (''project'', JStr proj),
        (''updated_on'', JDate t)]"
  by (simp add: put_patch_def strip_falsy_def obj_keys_def obj_set_def obj_has_def)

lemma cast_update_status_patch:
  "v \<noteq> [] \<Longrightarrow> \<bar>t\<bar> \<le> max_time \<Longrightarrow>
   cast_update (put_patch t proj [(''_id'', JStr ''000000000000000000000001''), (''status_text'', JStr v)])
     = Inr [(''status_text'', FStr v), (''project'', FStr proj), (''updated_on'', FDate t)]"
  by (simp add: put_patch_status schema_path_def)

subsection \<open>Interleaved updates of one issue\<close>

text \<open>C35. The store applies updates in the order their calls complete, not in the order
  the requests arrived: two PUTs of the same issue, the first arriving at time 2 and
  the second at time 3, whose calls complete in the opposite order, are both answered
  \<^verbatim>\<open>'successfully updated'\<close>, and the issue is left with the first request's
  value and \<^verbatim>\<open>updated_on = 2\<close>: the later request's update is lost, and the
  issue's \<^verbatim>\<open>updated_on\<close> went from 3 back to 2.\<close>

theorem later_put_lost:
  "\<exists>s d. sstep\<^sup>*\<^sup>* (init_server 0 \<lparr>docs = [(1, demo_issue)], next_oid = 2\<rparr>) s
     \<and> conn s = Connected \<and> clock s = 3 \<and> inflight s = []
     \<and> map snd (finished s) = [ResultId ''successfully updated'' (JStr ''000000000000000000000001''),
                              ResultId ''successfully updated'' (JStr ''000000000000000000000001'')]
     \<and> store_map (db s) 1 = Some d \<and> updated_on d = 2 \<and> status_text d = ''first''"
proof -
  define s0 where "s0 = \<lparr>docs = [(1::nat, demo_issue)], next_oid = 2\<rparr>"
  define b1 where "b1 = [(''_id'', JStr ''000000000000000000000001''), (''status_text'', JStr ''first'')]"
  define b2 where "b2 = [(''_id'', JStr ''000000000000000000000001''), (''status_text'', JStr ''second'')]"
  define c1 where "c1 = projr (dispatch 2 (Put ''apitest'' b1))"
  define c2 where "c2 = projr (dispatch 3 (Put ''apitest'' b2))"
  have d1: "dispatch 2 (Put ''apitest'' b1) = Inr c1"
    by (simp add: c1_def b1_def strip_falsy_def obj_keys_def Let_def)
  have d2: "dispatch 3 (Put ''apitest'' b2) = Inr c2"
    by (simp add: c2_def b2_def strip_falsy_def obj_keys_def Let_def)
  define x1 where "x1 = (1::nat, 2::int, Put ''apitest'' b1, c1)"
  define x2 where "x2 = (2::nat, 3::int, Put ''apitest'' b2, c2)"
  define S1 where "S1 = (init_server 0 s0)\<lparr>conn := Connected\<rparr>"
  define S2 where "S2 = S1\<lparr>clock := 2, inflight := inflight S1 @ [x1]\<rparr>"
  define S3 where "S3 = S2\<lparr>clock := 3, inflight := inflight S2 @ [x2]\<rparr>"
  obtain r2 st2 where e2: "run_call_on Connected c2 s0 = (r2, st2)" by fastforce
  define S4 where "S4 = S3\<lparr>db := st2, inflight := remove1 x2 (inflight S3),
      finished := finished S3 @ [(2, r2)]\<rparr>"
  obtain r1 st1 where e1: "run_call_on Connected c1 st2 = (r1, st1)" by fastforce
  define S5 where "S5 = S4\<lparr>db := st1, inflight := remove1 x1 (inflight S4),
      finished := finished S4 @ [(1, r1)]\<rparr>"
  have "sstep (init_server 0 s0) S1" unfolding S1_def by (rule sstep.connect_ok) (simp add: init_server_def)
  moreover have "sstep S1 S2" unfolding S2_def x1_def
    using d1 by (intro sstep.call) (simp_all add: S1_def init_server_def request_ids_def b1_def obj_wf_def)
  moreover have "sstep S2 S3" unfolding S3_def x2_def
    using d2 by (intro sstep.call) (simp_all add: S2_def S1_def x1_def init_server_def request_ids_def b2_def obj_wf_def)
  moreover have "sstep S3 S4" unfolding S4_def x2_def
    using e2 by (intro sstep.complete) (simp_all add: S3_def S2_def S1_def x2_def init_server_def)
  moreover have "sstep S4 S5" unfolding S5_def x1_def
    using e1 by (intro sstep.complete) (simp_all add: S4_def S3_def S2_def S1_def x1_def x2_def init_server_def)
  ultimately have run: "sstep\<^sup>*\<^sup>* (init_server 0 s0) S5"
    by (meson converse_rtranclp_into_rtranclp r_into_rtranclp)
  have cs: "c1 = CallUpdate (JStr ''000000000000000000000001'') (put_patch 2 ''apitest'' b1)"
    "c2 = CallUpdate (JStr ''000000000000000000000001'') (put_patch 3 ''apitest'' b2)"
    by (simp_all add: c1_def c2_def b1_def b2_def Let_def strip_falsy_def obj_keys_def put_patch_status)
  note cu = cast_update_status_patch
  have ev: "run_call_on Connected c2 s0 =
      (ResultId ''successfully updated'' (JStr ''000000000000000000000001''),
       \<lparr>docs = [(1, demo_issue\<lparr>status_text := ''second'', updated_on := 3\<rparr>)], next_oid = 2\<rparr>)"
    "run_call_on Connected c1 \<lparr>docs = [(1, demo_issue\<lparr>status_text := ''second'', updated_on := 3\<rparr>)], next_oid = 2\<rparr> =
      (ResultId ''successfully updated'' (JStr ''000000000000000000000001''),
       \<lparr>docs = [(1, demo_issue\<lparr>status_text := ''first'', updated_on := 2\<rparr>)], next_oid = 2\<rparr>)"
    using cu [of "''second''" 3] cu [of "''first''" 2]
    by (simp_all add: run_call_on_def cs b1_def b2_def s0_def store_find_by_id_and_update_def oid_one oid_one(2) [unfolded One_nat_def]
        max_time_def demo_issue_def)
  then show ?thesis using run e1 e2
    unfolding s0_def [symmetric] by (intro exI [of _ S5]) (auto simp: S5_def S4_def S3_def S2_def S1_def x1_def x2_def init_server_def
        store_map_def demo_issue_def)
qed


end
