(* ===== verification/Test_Suite.thy ===== *)
theory Test_Suite
  imports Server
begin

text \<open>
  The functional tests of \<^verbatim>\<open>src/tests/2_functional-tests.js\<close> as a scenario. Mocha
  runs the fourteen tests of the suite one after the other, each waiting for its
  response (\<^verbatim>\<open>done()\<close>) before the next request is sent, so the suite is a
  sequence of requests handled by \<open>handle\<close> against one database, each followed by
  the test's assertions on its response. A test case is a request and the conjunction
  of the test's \<^verbatim>\<open>assert\<close> calls as a predicate on the response. Every response of
  the model has status 200, so \<^verbatim>\<open>assert.equal(res.status, 200)\<close> holds of every
  response but \<open>NoResponse\<close>, on which the test times out. \<^verbatim>\<open>assert.property\<close>
  holds of every field of an issue object (the handlers always set all of them).
  Query parameters arrive as strings: \<^verbatim>\<open>.query({open: true})\<close> is
  \<^verbatim>\<open>open=true\<close>.

  The tests update and delete three fixed identifiers, so they presuppose a database
  that already holds them; \<open>test_store\<close> (theory \<open>Handlers\<close>) is such a database. The
  suite passes on it, and fails when run a second time on the database the first run
  leaves, because the deleted issue is gone.
\<close>

text \<open>The identifiers the tests use: the two issues they update, the one they delete
  and the one they expect to be unknown.\<close>

abbreviation oid_d032 :: nat where "oid_d032 \<equiv> 30906652776818921245331804210"
abbreviation oid_d034 :: nat where "oid_d034 \<equiv> 30906652776818921245331804212"
abbreviation oid_cda2 :: nat where "oid_cda2 \<equiv> 30906657188655968093258698146"
abbreviation oid_f3b5 :: nat where "oid_f3b5 \<equiv> 30906519531288826207072482229"

record test_case =
  tc_request :: request
  tc_passes :: "response \<Rightarrow> bool"

fun check_post_every_field :: "response \<Rightarrow> bool" where
  "check_post_every_field (IssueCreated j) =
     (j_issue_title j = ''Func Test 1'' \<and> j_created_by j = ''user1'')"
| "check_post_every_field r = False"

fun check_post_required_only :: "response \<Rightarrow> bool" where
  "check_post_required_only (IssueCreated j) =
     (j_issue_title j = ''Func Test 2'' \<and> j_created_by j = ''user2''
      \<and> j_assigned_to j = [] \<and> j_status_text j = [])"
| "check_post_required_only r = False"

fun check_get_all :: "response \<Rightarrow> bool" where
  "check_get_all (IssueList (j # js)) = True"
| "check_get_all r = False"

fun check_get_one_filter :: "response \<Rightarrow> bool" where
  "check_get_one_filter (IssueList js) = list_all (\<lambda>j. j_assigned_to j = ''tester1'') js"
| "check_get_one_filter r = False"

fun check_get_two_filters :: "response \<Rightarrow> bool" where
  "check_get_two_filters (IssueList js) =
     list_all (\<lambda>j. j_assigned_to j = ''tester1'' \<and> j_open j) js"
| "check_get_two_filters r = False"

definition test_get_one_filter :: jsobj where
  "test_get_one_filter = [(''assigned_to'', JStr ''tester1'')]"

definition test_get_two_filters :: jsobj where
  "test_get_two_filters = [(''assigned_to'', JStr ''tester1''), (''open'', JStr ''true'')]"

text \<open>The four suites of the file, in order, each test as the request it sends and its
  assertions.\<close>

definition post_tests :: "test_case list" where
  "post_tests =
     [\<lparr>tc_request = Post ''apitest'' test_post_every_field, tc_passes = check_post_every_field\<rparr>,
      \<lparr>tc_request = Post ''apitest'' test_post_required_only, tc_passes = check_post_required_only\<rparr>,
      \<lparr>tc_request = Post ''apitest'' test_post_missing,
       tc_passes = (\<lambda>r. r = ErrorMsg ''required field(s) missing'')\<rparr>]"

definition get_tests :: "test_case list" where
  "get_tests =
     [\<lparr>tc_request = Get ''apitest'' [], tc_passes = check_get_all\<rparr>,
      \<lparr>tc_request = Get ''apitest'' test_get_one_filter, tc_passes = check_get_one_filter\<rparr>,
      \<lparr>tc_request = Get ''apitest'' test_get_two_filters, tc_passes = check_get_two_filters\<rparr>]"

definition put_tests :: "test_case list" where
  "put_tests =
     [\<lparr>tc_request = Put ''apitest'' test_put_one_field,
       tc_passes = (\<lambda>r. r = ResultId ''successfully updated'' (JStr ''63dd624c3e7e112e07a5d032''))\<rparr>,
      \<lparr>tc_request = Put ''apitest'' test_put_multiple,
       tc_passes = (\<lambda>r. r = ResultId ''successfully updated'' (JStr ''63dd624c3e7e112e07a5d034''))\<rparr>,
      \<lparr>tc_request = Put ''apitest'' test_put_missing_id, tc_passes = (\<lambda>r. r = ErrorMsg ''missing _id'')\<rparr>,
      \<lparr>tc_request = Put ''apitest'' test_put_no_fields,
       tc_passes = (\<lambda>r. r = ErrorId ''no update field(s) sent'' (JStr ''63dd624c3e7e112e07a5d034''))\<rparr>,
      \<lparr>tc_request = Put ''apitest'' test_put_invalid_id,
       tc_passes = (\<lambda>r. r = ErrorId ''could not update'' (JStr ''63dd4614fd4ca8d1372cf3b5''))\<rparr>]"

definition delete_tests :: "test_case list" where
  "delete_tests =
     [\<lparr>tc_request = Delete ''apitest'' test_delete,
       tc_passes = (\<lambda>r. r = ResultId ''successfully deleted'' (JStr ''63dd633b6907e45f9ebccda2''))\<rparr>,
      \<lparr>tc_request = Delete ''apitest'' test_delete_invalid_id,
       tc_passes = (\<lambda>r. r = ErrorId ''could not delete'' (JStr ''63dd4614fd4ca8d1372cf3b5''))\<rparr>,
      \<lparr>tc_request = Delete ''apitest'' test_delete_missing_id,
       tc_passes = (\<lambda>r. r = ErrorMsg ''missing _id'')\<rparr>]"

definition functional_tests :: "test_case list" where
  "functional_tests = post_tests @ get_tests @ put_tests @ delete_tests"

text \<open>The suite run from time \<open>t\<close>, one millisecond per test: the outcome of every test
  and the database it leaves.\<close>

fun run_suite :: "int \<Rightarrow> test_case list \<Rightarrow> store \<Rightarrow> bool list \<times> store" where
  "run_suite t [] s = ([], s)"
| "run_suite t (c # cs) s =
     (case handle t (tc_request c) s of
        (r, s') \<Rightarrow> (case run_suite (t + 1) cs s' of (bs, s'') \<Rightarrow> (tc_passes c r # bs, s'')))"

subsection \<open>Running the suite\<close>

lemma run_suite_append:
  "run_suite t (xs @ ys) s =
     (case run_suite t xs s of
        (bs, s') \<Rightarrow> (case run_suite (t + int (length xs)) ys s' of (bs', s'') \<Rightarrow> (bs @ bs', s'')))"
  by (induction xs arbitrary: t s) (auto split: prod.split simp: algebra_simps)

lemma suite_oids:
  "cast_oid (JStr ''63dd633b6907e45f9ebccda2'') = Some oid_cda2"
  "oid_hex oid_d034 = ''63dd624c3e7e112e07a5d034''"
  by (simp_all add: cast_oid_def hex_val_def oid_hex_def hex_digits_numeral hex_char_def char_of_eq_iff)

text \<open>The POST tests pass on every database and add two issues.\<close>

lemma post_tests_run:
  "run_suite t post_tests s =
     ([True, True, True],
      snd (store_insert
        \<lparr>project = ''apitest'', issue_title = ''Func Test 2'',
         issue_text = ''Create issue with only required fields'', created_by = ''user2'',
         assigned_to = [], status_text = [], is_open = True, created_on = t + 1, updated_on = t + 1\<rparr>
        (snd (store_insert (demo_issue\<lparr>created_on := t, updated_on := t\<rparr>) s))))"
  by (simp add: post_tests_def issue_post_def Let_def new_issue_def js_or_def store_insert_def
      test_post_every_field_def test_post_required_only_def test_post_missing_def demo_issue_def
      issue_json_of_def)

lemma check_get_all_iff: "check_get_all (IssueList js) \<longleftrightarrow> js \<noteq> []"
  by (cases js) simp_all

lemma issue_get_filtered:
  "cast_filter (obj_set ''project'' (JStr proj) q) = Inr cs \<Longrightarrow>
   issue_get proj q s =
     (if filter (\<lambda>jd. list_all (\<lambda>c. cond_holds c jd) cs) (docs s) = [] then NoIssuesFound
      else IssueList (map issue_json_of (filter (\<lambda>jd. list_all (\<lambda>c. cond_holds c jd) cs) (docs s))))"
  by (simp add: issue_get_def store_find_def)

text \<open>The GET tests pass on every database that holds an open issue of the project
  assigned to \<^verbatim>\<open>tester1\<close>, which the first POST test creates.\<close>

lemma get_tests_run:
  assumes "(i, d) \<in> set (docs s)" and "project d = ''apitest''" and "assigned_to d = ''tester1''"
    and "is_open d"
  shows "run_suite t get_tests s = ([True, True, True], s)"
proof -
  have c: "cast_filter (obj_set ''project'' (JStr ''apitest'') []) = Inr [CondPath ''project'' (FStr ''apitest'')]"
    "cast_filter (obj_set ''project'' (JStr ''apitest'') test_get_one_filter)
       = Inr [CondPath ''assigned_to'' (FStr ''tester1''), CondPath ''project'' (FStr ''apitest'')]"
    "cast_filter (obj_set ''project'' (JStr ''apitest'') test_get_two_filters)
       = Inr [CondPath ''assigned_to'' (FStr ''tester1''), CondPath ''open'' (FBool True),
              CondPath ''project'' (FStr ''apitest'')]"
    by (simp_all add: obj_set_def obj_has_def schema_path_def test_get_one_filter_def
        test_get_two_filters_def)
  then show ?thesis using assms
    by (auto simp: get_tests_def check_get_all_iff filter_empty_conv issue_get_filtered [OF c(1)] issue_get_filtered [OF c(2)]
        issue_get_filtered [OF c(3)] list_all_iff issue_json_of_def get_field_def split: if_splits)
qed

lemma suite_put_updates:
  assumes "\<bar>t\<bar> \<le> max_time"
  shows "cast_update (put_patch t ''apitest'' test_put_one_field)
      = Inr [(''status_text'', FStr ''Test complete''), (''project'', FStr ''apitest''), (''updated_on'', FDate t)]"
    "cast_update (put_patch t ''apitest'' test_put_multiple)
      = Inr [(''status_text'', FStr ''Test complete and will be closed''), (''project'', FStr ''apitest''),
             (''updated_on'', FDate t)]"
    "cast_update (put_patch t ''apitest'' test_put_invalid_id)
      = Inr [(''status_text'', FStr ''Test complete''), (''project'', FStr ''apitest''), (''updated_on'', FDate t)]"
  using assms
  by (simp_all add: put_patch_def strip_falsy_def obj_keys_def test_put_one_field_def test_put_multiple_def
      test_put_invalid_id_def obj_set_def obj_has_def schema_path_def obj_delete_def)

text \<open>The PUT tests pass on every database that holds the two issues they update and
  not the identifier they expect to be unknown; they update those two issues.\<close>

lemma put_tests_run:
  assumes "store_map s oid_d032 = Some dA" and "store_map s oid_d034 = Some dB"
    and "store_map s oid_f3b5 = None" and "0 \<le> t" and "t + 4 \<le> max_time"
  shows "run_suite t put_tests s =
    ([True, True, True, True, True],
     s\<lparr>docs := update_doc oid_d034
        (apply_update [(''status_text'', FStr ''Test complete and will be closed''),
           (''project'', FStr ''apitest''), (''updated_on'', FDate (t + 1))])
        (update_doc oid_d032
          (apply_update [(''status_text'', FStr ''Test complete''), (''project'', FStr ''apitest''),
             (''updated_on'', FDate t)]) (docs s))\<rparr>)"
proof -
  define s1 where "s1 = s\<lparr>docs := update_doc oid_d032
    (apply_update [(''status_text'', FStr ''Test complete''), (''project'', FStr ''apitest''),
       (''updated_on'', FDate t)]) (docs s)\<rparr>"
  define s2 where "s2 = s1\<lparr>docs := update_doc oid_d034
    (apply_update [(''status_text'', FStr ''Test complete and will be closed''),
       (''project'', FStr ''apitest''), (''updated_on'', FDate (t + 1))]) (docs s1)\<rparr>"
  have b: "\<bar>t\<bar> \<le> max_time" "\<bar>t + 1\<bar> \<le> max_time" "\<bar>t + 4\<bar> \<le> max_time"
    using assms(4,5) by simp_all
  note u = suite_put_updates(1) [OF b(1)] suite_put_updates(2) [OF b(2)] suite_put_updates(3) [OF b(3)]
  have c: "cast_oid (obj_get test_put_one_field ''_id'') = Some oid_d032"
    "cast_oid (obj_get test_put_multiple ''_id'') = Some oid_d034"
    by (simp_all add: test_put_one_field_def test_put_multiple_def test_ids)
  have p1: "issue_put t ''apitest'' test_put_one_field s =
      (ResultId ''successfully updated'' (JStr ''63dd624c3e7e112e07a5d032''), s1)"
    using issue_put_success [OF test_bodies_wf(1) c(1) _ _ _ assms(1) u(1),
        of "''status_text''" "JStr ''Test complete''"]
    by (simp add: s1_def test_put_one_field_def test_ids(4))
  have "store_map s1 oid_d034 = Some dB" "store_map s2 oid_f3b5 = None"
    using assms(2,3) by (simp_all add: s1_def s2_def store_map_def map_of_update_doc)
  then have p2: "issue_put (t + 1) ''apitest'' test_put_multiple s1 =
      (ResultId ''successfully updated'' (JStr ''63dd624c3e7e112e07a5d034''), s2)"
    and n2: "store_map s2 oid_f3b5 = None"
    using issue_put_success [OF test_bodies_wf(2) c(2) _ _ _ _ u(2),
        of "''status_text''" "JStr ''Test complete and will be closed''" s1 dB]
    by (simp_all add: s2_def test_put_multiple_def suite_oids(2))
  have pid: "obj_get (put_patch (t + 4) ''apitest'' test_put_invalid_id) ''_id''
      = JStr ''63dd4614fd4ca8d1372cf3b5''"
    by (subst put_patch_id [OF test_bodies_wf(3)]) (simp_all add: test_put_invalid_id_def)
  have p5: "issue_put (t + 4) ''apitest'' test_put_invalid_id s2 =
      (ErrorId ''could not update'' (JStr ''63dd4614fd4ca8d1372cf3b5''), s2)"
    using n2 u(3)
    by (simp add: issue_put_def Let_def pid strip_falsy_def obj_keys_def store_find_by_id_and_update_def
        test_ids(3) store_map_def) (simp add: test_put_invalid_id_def)
  have p34: "issue_put (t + 2) ''apitest'' test_put_missing_id s2 = (ErrorMsg ''missing _id'', s2)"
    "issue_put (t + 3) ''apitest'' test_put_no_fields s2 =
      (ErrorId ''no update field(s) sent'' (JStr ''63dd624c3e7e112e07a5d034''), s2)"
    by (simp_all add: issue_put_def test_put_missing_id_def test_put_no_fields_def strip_falsy_def
        obj_keys_def)
  show ?thesis
    using p1 p2 p34 p5 by (simp add: put_tests_def s2_def s1_def algebra_simps)
qed

lemma delete_doc_absent: "map_of ds i = None \<Longrightarrow> delete_doc i ds = ds"
  by (induction i ds rule: delete_doc.induct) auto

text \<open>The first DELETE test passes exactly when the database holds the issue it
  deletes; the other two pass on every database that does not hold the identifier
  they expect to be unknown.\<close>

lemma delete_tests_run:
  assumes "store_inv s" and "store_map s oid_f3b5 = None"
  shows "run_suite t delete_tests s =
    ([store_map s oid_cda2 \<noteq> None, True, True], s\<lparr>docs := delete_doc oid_cda2 (docs s)\<rparr>)"
proof -
  let ?s1 = "s\<lparr>docs := delete_doc oid_cda2 (docs s)\<rparr>"
  have d1: "issue_delete ''apitest'' test_delete s =
      (if store_map s oid_cda2 = None
       then ErrorId ''could not delete'' (JStr ''63dd633b6907e45f9ebccda2'')
       else ResultId ''successfully deleted'' (JStr ''63dd633b6907e45f9ebccda2''), ?s1)"
    by (simp add: issue_delete_def test_delete_def store_find_by_id_and_delete_def suite_oids(1)
        store_map_def delete_doc_absent split: option.split)
  have "store_map ?s1 oid_f3b5 = None"
    using assms by (simp add: store_map_def store_inv_def map_of_delete_doc)
  then have d2: "issue_delete ''apitest'' test_delete_invalid_id ?s1 =
      (ErrorId ''could not delete'' (JStr ''63dd4614fd4ca8d1372cf3b5''), ?s1)"
    by (simp add: issue_delete_def test_delete_invalid_id_def store_find_by_id_and_delete_def
        test_ids(3) store_map_def)
  have d3: "issue_delete ''apitest'' test_delete_missing_id ?s1 = (ErrorMsg ''missing _id'', ?s1)"
    by (simp add: issue_delete_def test_delete_missing_id_def)
  show ?thesis using d1 d2 d3 by (simp add: delete_tests_def)
qed

text \<open>The preconditions the suite needs of its database: the store invariant, the two
  issues the PUT tests update, no issue under the identifier the tests expect to be
  unknown, and fresh identifiers above the fixed ones (ObjectIds grow with their
  creation time, and the fixed ones were created before the run).\<close>

definition suite_fixture :: "store \<Rightarrow> bool" where
  "suite_fixture s =
     (store_inv s \<and> store_map s oid_d032 \<noteq> None \<and> store_map s oid_d034 \<noteq> None
      \<and> store_map s oid_f3b5 = None \<and> oid_f3b5 < next_oid s \<and> oid_cda2 < next_oid s)"

lemma length_suites:
  "length post_tests = 3" "length get_tests = 3" "length put_tests = 5"
  by (simp_all add: post_tests_def get_tests_def put_tests_def)

text \<open>The outcome of one run of the suite: every test passes but possibly the first
  DELETE test, which passes exactly when the issue it deletes is there; the database
  left still satisfies the preconditions and no longer holds that issue.\<close>

lemma suite_run:
  assumes "suite_fixture s" and "0 \<le> t" and "t + 14 \<le> max_time"
  shows "\<exists>s'. run_suite t functional_tests s =
      (replicate 11 True @ [store_map s oid_cda2 \<noteq> None, True, True], s')
    \<and> suite_fixture s' \<and> store_map s' oid_cda2 = None"
proof -
  let ?p1 = "demo_issue\<lparr>created_on := t, updated_on := t\<rparr>"
  let ?p2 = "\<lparr>project = ''apitest'', issue_title = ''Func Test 2'',
         issue_text = ''Create issue with only required fields'', created_by = ''user2'',
         assigned_to = [], status_text = [], is_open = True, created_on = t + 1, updated_on = t + 1\<rparr>"
  define s2 where "s2 = snd (store_insert ?p2 (snd (store_insert ?p1 s)))"
  have inv: "store_inv s" using assms(1) by (simp add: suite_fixture_def)
  have inv2: "store_inv s2" unfolding s2_def by (intro store_inv_insert inv)
  have next2: "next_oid s2 = next_oid s + 2" by (simp add: s2_def store_insert_def)
  have mem: "(next_oid s, ?p1) \<in> set (docs s2)" by (simp add: s2_def store_insert_def)
  have map2: "store_map s2 i = store_map s i" if "i < next_oid s" for i
    using that store_map_insert [OF inv] store_map_insert [OF store_inv_insert [OF inv]]
    by (simp add: s2_def store_insert_def)
  have fix2: "store_map s2 oid_d032 \<noteq> None" "store_map s2 oid_d034 \<noteq> None"
      "store_map s2 oid_f3b5 = None" "store_map s2 oid_cda2 = store_map s oid_cda2"
    using assms(1) map2 store_map_above [OF inv, of oid_d032] store_map_above [OF inv, of oid_d034]
    by (fastforce simp: suite_fixture_def)+
  from fix2(1,2) obtain dA dB where dA: "store_map s2 oid_d032 = Some dA"
    and dB: "store_map s2 oid_d034 = Some dB" by blast
  have "\<exists>f g. run_suite (t + 6) put_tests s2 = ([True, True, True, True, True],
      s2\<lparr>docs := update_doc oid_d034 g (update_doc oid_d032 f (docs s2))\<rparr>)"
    using put_tests_run [OF dA dB fix2(3), of "t + 6"] assms(2,3) by fastforce
  then obtain f g where put: "run_suite (t + 6) put_tests s2 = ([True, True, True, True, True],
      s2\<lparr>docs := update_doc oid_d034 g (update_doc oid_d032 f (docs s2))\<rparr>)" by blast
  define s3 where "s3 = s2\<lparr>docs := update_doc oid_d034 g (update_doc oid_d032 f (docs s2))\<rparr>"
  have inv3: "store_inv s3" using inv2 by (simp add: s3_def store_inv_def map_fst_update_doc)
  have map3: "store_map s3 oid_d032 \<noteq> None" "store_map s3 oid_d034 \<noteq> None"
      "store_map s3 oid_f3b5 = None" "store_map s3 oid_cda2 = store_map s oid_cda2"
    using fix2 by (simp_all add: s3_def store_map_def map_of_update_doc)
  define s4 where "s4 = s3\<lparr>docs := delete_doc oid_cda2 (docs s3)\<rparr>"
  have del: "run_suite (t + 11) delete_tests s3 = ([store_map s oid_cda2 \<noteq> None, True, True], s4)"
    using delete_tests_run [OF inv3 map3(3)] map3(4) by (simp add: s4_def)
  have "store_map s4 = (store_map s3)(oid_cda2 := None)"
    unfolding s4_def by (rule store_map_delete_doc [OF inv3])
  moreover have "store_inv s4" unfolding s4_def by (rule store_inv_delete_doc [OF inv3])
  moreover have "next_oid s4 = next_oid s + 2" by (simp add: s4_def s3_def next2)
  ultimately have "suite_fixture s4 \<and> store_map s4 oid_cda2 = None"
    using map3 assms(1) by (simp add: suite_fixture_def)
  moreover have "run_suite t functional_tests s =
      (replicate 11 True @ [store_map s oid_cda2 \<noteq> None, True, True], s4)"
  proof -
    have post: "run_suite t post_tests s = ([True, True, True], s2)"
      using post_tests_run [of t s] by (simp add: s2_def)
    have get: "run_suite (t + 3) get_tests s2 = ([True, True, True], s2)"
      using mem by (rule get_tests_run) (simp_all add: demo_issue_def)
    have times: "t + 3 + 3 = t + 6" "t + 6 + 5 = t + 11" by simp_all
    have r11: "replicate 11 True = [True, True, True, True, True, True, True, True, True, True, True]"
      by (simp add: numeral_eq_Suc)
    show ?thesis
      using post get put del
      by (simp add: functional_tests_def run_suite_append length_suites times r11 s3_def [symmetric])
  qed
  ultimately show ?thesis by blast
qed

lemma test_store_fixture: "suite_fixture test_store" "store_map test_store oid_cda2 \<noteq> None"
  by (simp_all add: suite_fixture_def store_inv_def store_map_def test_store_def)

subsection \<open>The suite against a database\<close>

text \<open>C29. The functional test suite passes on every database that holds the two
  issues the PUT tests update and not the identifier the tests expect to be unknown,
  exactly when the database also holds the issue the first DELETE test deletes; every
  other test passes whatever the database holds beyond that.\<close>

theorem suite_passes:
  assumes "suite_fixture s" and "0 \<le> t" and "t + 14 \<le> max_time"
  shows "list_all (\<lambda>b. b) (fst (run_suite t functional_tests s)) \<longleftrightarrow> store_map s oid_cda2 \<noteq> None"
  using suite_run [OF assms] by (auto simp: list_all_iff)

theorem suite_passes_witness:
  "suite_fixture test_store \<and> (0::int) \<le> 1675452000000 \<and> 1675452000000 + 14 \<le> max_time
   \<and> list_all (\<lambda>b. b) (fst (run_suite 1675452000000 functional_tests test_store))"
proof -
  have t: "(0::int) \<le> 1675452000000" "1675452000000 + 14 \<le> max_time" by (simp_all add: max_time_def)
  show ?thesis using suite_passes [OF test_store_fixture(1) t] test_store_fixture t by simp
qed

text \<open>C30. The suite cannot be run twice: on the database one passing run leaves, a
  second run fails its first DELETE test (the issue it deletes is gone) and passes
  every other test.\<close>

theorem suite_not_rerunnable:
  assumes "suite_fixture s" and "0 \<le> t" and "t + 14 \<le> max_time"
    and "0 \<le> t'" and "t' + 14 \<le> max_time"
  shows "fst (run_suite t' functional_tests (snd (run_suite t functional_tests s)))
    = replicate 11 True @ [False, True, True]"
proof -
  obtain s' where r: "run_suite t functional_tests s =
      (replicate 11 True @ [store_map s oid_cda2 \<noteq> None, True, True], s')"
    and f: "suite_fixture s'" and gone: "store_map s' oid_cda2 = None"
    using suite_run [OF assms(1-3)] by blast
  obtain s'' where "run_suite t' functional_tests s' =
      (replicate 11 True @ [store_map s' oid_cda2 \<noteq> None, True, True], s'')"
    using suite_run [OF f assms(4,5)] by blast
  with r gone show ?thesis by simp
qed

theorem suite_not_rerunnable_witness:
  "fst (run_suite 1675452100000 functional_tests (snd (run_suite 1675452000000 functional_tests test_store)))
    = replicate 11 True @ [False, True, True]"
  by (rule suite_not_rerunnable [OF test_store_fixture(1)]) (simp_all add: max_time_def)

end
