(* ===== verification/Spec2Isabelle.thy ===== *)
theory Spec2Isabelle
  imports Concurrent Test_Suite
begin

text \<open>
  \<^bold>\<open>IssueTracker: a verification development of \<^verbatim>\<open>src/routes/api.js\<close>.\<close>

  \<^bold>\<open>The program.\<close> One Express route, \<^verbatim>\<open>/api/issues/:project\<close>, with four
  handlers in front of a MongoDB collection reached through Mongoose: GET lists the
  issues matching the query (lines 15--43), POST creates one (45--79), PUT updates one
  (81--113), DELETE deletes one (115--131). Each handler validates the request
  synchronously, makes one store call (\<^verbatim>\<open>Issue.find\<close>, \<^verbatim>\<open>save\<close>,
  \<^verbatim>\<open>Issue.findByIdAndUpdate\<close>, \<^verbatim>\<open>Issue.findByIdAndDelete\<close>) and answers from
  its callback, always with status 200; a store error is logged and the request is
  never answered. The collection is the only state shared between requests.

  \<^bold>\<open>Theories and what they model.\<close>
  \<^item> \<open>Prelude\<close>: JavaScript values (\<open>jsval\<close>), \<^verbatim>\<open>!x\<close> (\<open>js_truthy\<close>),
    \<^verbatim>\<open>a || b\<close> (\<open>js_or\<close>), and plain objects as association lists in insertion order
    with property read, assignment, \<^verbatim>\<open>delete\<close> and \<^verbatim>\<open>Object.keys\<close>.
  \<^item> \<open>ObjectId\<close>: identifiers as 96-bit numbers, the store's cast of a client's
    \<^verbatim>\<open>_id\<close> (24 hex digits, either case) and the lower-case hex of JSON answers;
    round trip, bound and lower-casing lemmas.
  \<^item> \<open>Issue_Model\<close>: the issue schema of \<^verbatim>\<open>models/issues\<close> (not among the
    sources, modelled from the specification's data model) as the record \<open>issue\<close>,
    the mapper's casts of values to string, boolean and date paths, and
    \<open>new_issue\<close>, the constructor with its defaults.
  \<^item> \<open>Store\<close>: the collection as a list of identified documents in insertion order
    with a fresh-identifier counter (\<open>store\<close>), and \<open>store_find\<close>,
    \<open>store_insert\<close>, \<open>store_find_by_id_and_update\<close>,
    \<open>store_find_by_id_and_delete\<close> with their casts; the invariant \<open>store_inv\<close>
    (identifiers distinct and below the counter) kept by each operation, and each
    operation's refinement of the abstract collection \<open>store_map\<close>.
  \<^item> \<open>Handlers\<close>: \<open>issue_get\<close>, \<open>issue_post\<close>, \<open>issue_put\<close> (with the
    falsy-deleting loop \<open>strip_falsy_loop\<close> and the update document
    \<open>put_patch\<close>) and \<open>issue_delete\<close>, line by line from \<^verbatim>\<open>api.js\<close>; the
    \<open>response\<close> datatype has one constructor per payload shape and
    \<open>NoResponse\<close> for the unanswered request. The request bodies of
    \<^verbatim>\<open>src/tests/2_functional-tests.js\<close> are data here, and the witnesses run the
    handlers on them. Claims C1--C20: the behaviour of every branch of every handler,
    errors included; C28: the loop of lines 92--96 equals its specification.
  \<^item> \<open>Server\<close>: the route as the step function \<open>handle\<close>, runs as the
    inductive \<open>reach\<close> (requests one at a time at non-decreasing times), write
    times never in the future over a run (C21), and a reachable store that breaks the
    specification's invariant \<^verbatim>\<open>updated_on \<ge> created_on\<close> (C22).
  \<^item> \<open>Async\<close>: each handler split at its one store call, as the code runs it:
    \<open>dispatch\<close> is the synchronous part (validation, \<^verbatim>\<open>new Date()\<close>, building
    the query, document or update) and answers a validation error at once or issues a
    \<open>store_call\<close>; \<open>run_call\<close> is the call with its callback. The two compose to
    the handler (\<open>handle_dispatch\<close>), and a request is unanswered exactly when it
    passes validation and its call fails to cast, whatever the store holds (C31).
  \<^item> \<open>Concurrent\<close>: the running server of \<^verbatim>\<open>module.exports(app)\<close> (lines
    7--13) as the record \<open>server\<close> and the step relation \<open>sstep\<close>: the connection
    of \<^verbatim>\<open>mongoose.connect\<close> (connecting, connected, failed with the error only
    logged), requests arriving at any time and running their synchronous part at
    once, and the store calls in flight completing in any order, each atomically.
    Over every interleaved run write times stay no later than the clock (C34), and two
    interleaved PUTs of one issue can lose the one that arrived later (C35).
  \<^item> \<open>Test_Suite\<close>: \<^verbatim>\<open>src/tests/2_functional-tests.js\<close> as four sub-suites of
    test cases (request and assertions), run by \<open>run_suite\<close> one after the other on
    one database. The suite passes on a prepared database exactly when it holds the
    issue the DELETE test deletes (C29), and fails that test on a second run (C30).
  \<^item> This theory: the abstract contract \<open>abs_step\<close> of a request on the collection
    and the refinement theorem (C23), the create/list and create/delete round trips
    (C24, C25), the answered identifier of PUT (C26), the frame of failed requests
    (C27), GET by identifier (C32), and the response shapes of the specification's
    interface table, \<open>spec_shape\<close> (C33).

  \<^bold>\<open>What the lemmas show.\<close> Listing is scoped to the path's project and honours
  every filter (C1--C4, C32); creation echoes the submitted fields with the defaults
  (C6, C7); deletion and update behave as the specification says on stored, absent and
  missing identifiers (C8--C10, C13--C18); every failed request writes nothing (C27);
  every answer has one of the shapes the specification lists (C33); write times
  never lie in the future, one request at a time (C21) or interleaved (C34).
  Divergences from the specification, each proved: a malformed identifier is never
  answered instead of being reported as not found (C11, C19); a query value that does
  not cast is never answered (C5, C31); the JSON \<^verbatim>\<open>open: false\<close> is deleted by
  the falsy loop, so a PUT closes an issue only through the strings
  \<^verbatim>\<open>'false'\<close>, \<^verbatim>\<open>'0'\<close> or \<^verbatim>\<open>'no'\<close> (C20); a PUT body may overwrite
  \<^verbatim>\<open>created_on\<close>, so the specification's invariant
  \<^verbatim>\<open>updated_on \<ge> created_on\<close> fails in a reachable store (C22); deletion ignores
  the path's project and an update moves the issue into it (C12, C14); PUT answers the lower-cased identifier
  (C26); concurrent updates are last-writer-wins by completion, not arrival (C35); the
  functional tests depend on a prepared database and cannot be run twice (C29, C30).

  \<^bold>\<open>Mongoose version.\<close> The repository pins no Mongoose version. The casts follow
  Mongoose 7 and later (BSON 5): an identifier casts only from a string of 24 hex
  digits, and a filter path outside the schema is passed to the store (the default
  \<^verbatim>\<open>strictQuery: false\<close>), where it matches no document. Mongoose 6 and earlier
  differ in two ways the model does not cover: any 12-character string, such as the
  decimal string of a 12-digit number, also casts, as the 12 bytes of an identifier;
  and the default \<^verbatim>\<open>strictQuery\<close> strips unknown filter paths, so such a filter
  matches every issue of the project. C5, C11, C19, C26 and C31 are about the
  later versions.

  \<^bold>\<open>Bounds and fuel.\<close> There are no loops but the falsy-deleting loop, a structural
  recursion over the key list, and the fixed-length hex conversions, recursions over
  24 digits; no fuel is needed. Identifiers are unbounded numbers in the model; the
  cast only produces values below \<open>2^96\<close>, and the round trips assume the counter
  stays below it. Dates are JavaScript time values (ms), bounded by
  \<open>max_time = 8.64 \<cdot> 10^15\<close> as the cast of a \<^verbatim>\<open>Date\<close> requires; the test-suite
  theorems assume the run's times lie in that range.

  \<^bold>\<open>Not modelled.\<close> The logging (console output only; its one observable effect,
  that no response is sent, is \<open>NoResponse\<close>); HTTP transport and the JSON and
  query-string parsers (their result is an object with distinct keys,
  \<open>request_wf\<close>); nested objects and arrays in bodies or queries (query operators
  such as \<^verbatim>\<open>?open[$ne]=x\<close>); the parsing of date strings by JavaScript's
  \<^verbatim>\<open>Date\<close> (a date string is a cast error in the model); the \<^verbatim>\<open>__v\<close> version
  key; real ObjectId generation (timestamp, random, counter), replaced by a counter,
  which keeps the one property used, freshness; a connection lost after it was
  established, and reconnection; a store call that is not atomic (a \<^verbatim>\<open>find\<close>
  cursor that sees a concurrent write halfway).

  \<^bold>\<open>Plan.\<close> Next: (1) GET filters on dates, and the mapper's cast of date strings;
  (2) the store invariant over interleaved runs; (3) the Mongoose 6 casts as a
  second instance of the store, and the claims that differ between the two.
\<close>


section \<open>The abstract contract of the request handler\<close>

text \<open>
  What a request may do to the collection, seen as a partial map from identifiers to
  issues (\<open>store_map\<close>): leave it as it is, add one issue under a fresh identifier in
  the path's project, open and dated \<open>now\<close> (POST), replace the issue under the
  identifier the body names by one in the path's project dated \<open>now\<close> (PUT), or remove
  the issue under that identifier (DELETE). GET has only the first rule.
\<close>

inductive abs_step :: "int \<Rightarrow> request \<Rightarrow> (nat \<rightharpoonup> issue) \<Rightarrow> (nat \<rightharpoonup> issue) \<Rightarrow> bool" where
  unchanged: "abs_step now r m m"
| create: "m i = None \<Longrightarrow> project d = proj \<Longrightarrow> is_open d \<Longrightarrow> created_on d = now \<Longrightarrow>
    updated_on d = now \<Longrightarrow> abs_step now (Post proj b) m (m(i \<mapsto> d))"
| update: "cast_oid (obj_get b ''_id'') = Some i \<Longrightarrow> m i = Some d \<Longrightarrow> project d' = proj \<Longrightarrow>
    updated_on d' = now \<Longrightarrow> abs_step now (Put proj b) m (m(i \<mapsto> d'))"
| remove: "cast_oid (obj_get b ''_id'') = Some i \<Longrightarrow> m i \<noteq> None \<Longrightarrow>
    abs_step now (Delete proj b) m (m(i := None))"

text \<open>The answers that report a failure: the \<^verbatim>\<open>{error: ...}\<close> payloads and the
  request that is never answered.\<close>

fun is_failure :: "response \<Rightarrow> bool" where
  "is_failure (ErrorMsg m) = True"
| "is_failure (ErrorId m v) = True"
| "is_failure NoResponse = True"
| "is_failure r = False"

text \<open>The payload shapes the interface table of the specification (section 6) lists for
  each method: the success shape and the error messages, with the \<^verbatim>\<open>_id\<close> echoed
  as the body sent it where the table echoes it.\<close>

fun spec_shape :: "request \<Rightarrow> response \<Rightarrow> bool" where
  "spec_shape (Get p q) NoIssuesFound = True"
| "spec_shape (Get p q) (IssueList js) = True"
| "spec_shape (Post p b) (IssueCreated j) = True"
| "spec_shape (Post p b) (ErrorMsg m) = (m = ''required field(s) missing'')"
| "spec_shape (Put p b) (ErrorMsg m) = (m = ''missing _id'')"
| "spec_shape (Put p b) (ErrorId m v) =
     ((m = ''no update field(s) sent'' \<or> m = ''could not update'') \<and> v = obj_get b ''_id'')"
| "spec_shape (Put p b) (ResultId m v) = (m = ''successfully updated'')"
| "spec_shape (Delete p b) (ErrorMsg m) = (m = ''missing _id'')"
| "spec_shape (Delete p b) (ErrorId m v) = (m = ''could not delete'' \<and> v = obj_get b ''_id'')"
| "spec_shape (Delete p b) (ResultId m v) = (m = ''successfully deleted'' \<and> v = obj_get b ''_id'')"
| "spec_shape r resp = False"

section \<open>Lemmas\<close>

lemma new_issue_fields:
  "new_issue now (JStr proj) ti tx b a st = Some d \<Longrightarrow>
    project d = proj \<and> is_open d \<and> created_on d = now \<and> updated_on d = now"
  by (auto simp: new_issue_def split: option.splits)

lemma post_refines:
  "store_inv s \<Longrightarrow> abs_step now (Post proj b) (store_map s) (store_map (snd (issue_post now proj b s)))"
proof (cases rule: issue_post_cases [of now proj b s])
  case same
  then show ?thesis by (simp add: abs_step.unchanged)
next
  case (ins d)
  assume inv: "store_inv s"
  show ?thesis
    unfolding ins(2) store_map_insert [OF inv]
    using fresh_oid [OF inv] new_issue_fields [OF ins(1)] by (auto intro: abs_step.create)
qed

lemma put_refines:
  "store_inv s \<Longrightarrow> obj_wf b \<Longrightarrow> abs_step now (Put proj b) (store_map s) (store_map (snd (issue_put now proj b s)))"
proof (cases rule: issue_put_cases [of now proj b s])
  case same
  then show ?thesis by (simp add: abs_step.unchanged)
next
  case (upd i d us)
  assume wf: "obj_wf b"
  have "cast_oid (obj_get b ''_id'') = Some i" using upd(2) put_patch_id [OF wf upd(1)] by simp
  moreover have "store_map (snd (issue_put now proj b s)) = (store_map s)(i \<mapsto> apply_update us d)"
    using upd(3,5) by (simp add: store_map_def map_of_update_doc fun_eq_iff)
  ultimately show ?thesis
    using upd(3) put_patch_project [OF wf upd(4)] put_patch_updated_on [OF wf upd(4)]
    by (auto intro: abs_step.update)
qed

lemma delete_refines:
  "store_inv s \<Longrightarrow> abs_step now (Delete proj b) (store_map s) (store_map (snd (issue_delete proj b s)))"
proof (cases rule: issue_delete_cases [of proj b s])
  case same
  then show ?thesis by (simp add: abs_step.unchanged)
next
  case (del i)
  assume inv: "store_inv s"
  have "store_map (snd (issue_delete proj b s)) = (store_map s)(i := None)"
    using del(3) inv by (simp add: store_map_def store_inv_def map_of_delete_doc)
  with del(1,2) show ?thesis by (auto intro: abs_step.remove)
qed

section \<open>Properties across the components\<close>

text \<open>C23. Refinement: every request the server handles, from a store that satisfies the
  invariant, changes the abstract collection by one step of the contract
  \<open>abs_step\<close>; in particular GET never changes it, POST only adds a fresh issue, PUT
  only replaces the issue its \<^verbatim>\<open>_id\<close> names and DELETE only removes it.\<close>

theorem handle_refines:
  "store_inv s \<Longrightarrow> request_wf r \<Longrightarrow> abs_step now r (store_map s) (store_map (snd (handle now r s)))"
  by (cases r) (simp_all add: abs_step.unchanged post_refines put_refines delete_refines)

theorem handle_refines_witness:
  "store_inv test_store \<and> request_wf (Delete ''apitest'' test_delete)
   \<and> abs_step 3000 (Delete ''apitest'' test_delete) (store_map test_store)
       (store_map (snd (handle 3000 (Delete ''apitest'' test_delete) test_store)))"
proof -
  have inv: "store_inv test_store" by (simp add: store_inv_def test_store_def)
  have wf: "request_wf (Delete ''apitest'' test_delete)" by (simp add: obj_wf_def test_delete_def)
  show ?thesis using inv wf handle_refines [OF inv wf] by simp
qed

lemma issue_post_created:
  "issue_post now proj body s = (IssueCreated j, s1) \<Longrightarrow>
    \<exists>d. new_issue now (JStr proj) (obj_get body ''issue_title'') (obj_get body ''issue_text'')
          (obj_get body ''created_by'') (js_or (obj_get body ''assigned_to'') (JStr ''''))
          (js_or (obj_get body ''status_text'') (JStr '''')) = Some d
      \<and> j = issue_json_of (next_oid s, d) \<and> s1 = snd (store_insert d s)"
  by (auto simp: issue_post_def Let_def store_insert_def split: if_splits option.splits)

text \<open>C24. Round trip create, then list: the issue a successful POST answers with is
  among the issues a GET of the same project answers with, every literal field value
  unchanged.\<close>

theorem post_then_get:
  assumes "issue_post now proj body s = (IssueCreated j, s1)"
  shows "\<exists>js. issue_get proj [] s1 = IssueList js \<and> j \<in> set js"
proof -
  obtain d where d: "new_issue now (JStr proj) (obj_get body ''issue_title'') (obj_get body ''issue_text'')
          (obj_get body ''created_by'') (js_or (obj_get body ''assigned_to'') (JStr ''''))
          (js_or (obj_get body ''status_text'') (JStr '''')) = Some d"
    and j: "j = issue_json_of (next_oid s, d)" and s1: "s1 = snd (store_insert d s)"
    using issue_post_created [OF assms] by blast
  have p: "project d = proj" using new_issue_fields [OF d] by simp
  show ?thesis
    using p unfolding j s1
    by (simp add: issue_get_def store_find_def obj_set_def obj_has_def schema_path_def get_field_def
        store_insert_def)
qed

theorem post_then_get_witness:
  "issue_post 2000 ''apitest'' test_post_every_field test_store
     = (IssueCreated (issue_json_of (next_oid test_store, demo_issue\<lparr>created_on := 2000, updated_on := 2000\<rparr>)),
        snd (store_insert (demo_issue\<lparr>created_on := 2000, updated_on := 2000\<rparr>) test_store))
   \<and> (\<exists>js. issue_get ''apitest'' [] (snd (store_insert (demo_issue\<lparr>created_on := 2000, updated_on := 2000\<rparr>) test_store))
          = IssueList js
        \<and> issue_json_of (next_oid test_store, demo_issue\<lparr>created_on := 2000, updated_on := 2000\<rparr>) \<in> set js)"
proof -
  have h: "issue_post 2000 ''apitest'' test_post_every_field test_store
     = (IssueCreated (issue_json_of (next_oid test_store, demo_issue\<lparr>created_on := 2000, updated_on := 2000\<rparr>)),
        snd (store_insert (demo_issue\<lparr>created_on := 2000, updated_on := 2000\<rparr>) test_store))"
    by (simp add: issue_post_def Let_def new_issue_def js_or_def test_post_every_field_def demo_issue_def
        store_insert_def)
  show ?thesis using h post_then_get [OF h] by simp
qed

text \<open>C25. Round trip create, then delete by the identifier the POST answer carries (its
  JSON hex form): the DELETE succeeds and the abstract collection is exactly what it
  was before the POST.\<close>

theorem post_then_delete:
  assumes "store_inv s" and "next_oid s < 2 ^ 96"
    and "issue_post now proj body s = (IssueCreated j, s1)"
  shows "\<exists>s2. issue_delete proj' [(''_id'', JStr (oid_hex (j_id j)))] s1
      = (ResultId ''successfully deleted'' (JStr (oid_hex (j_id j))), s2) \<and> store_map s2 = store_map s"
proof -
  obtain d where j: "j = issue_json_of (next_oid s, d)" and s1: "s1 = snd (store_insert d s)"
    using issue_post_created [OF assms(3)] by blast
  have c: "cast_oid (JStr (oid_hex (next_oid s))) = Some (next_oid s)"
    using assms(2) by (rule oid_roundtrip)
  have m1: "store_map s1 = (store_map s)(next_oid s \<mapsto> d)"
    unfolding s1 using assms(1) by (rule store_map_insert)
  have inv1: "store_inv s1" unfolding s1 using assms(1) by (rule store_inv_insert)
  let ?s2 = "s1\<lparr>docs := delete_doc (next_oid s) (docs s1)\<rparr>"
  have del: "store_find_by_id_and_delete (JStr (oid_hex (next_oid s))) s1 = Inr (Some (next_oid s, d), ?s2)"
    using c m1 by (intro find_by_id_and_delete_cases(3)) simp_all
  have "store_map ?s2 = (store_map s1)(next_oid s := None)"
    using store_map_delete [OF del c inv1] by simp
  also have "\<dots> = store_map s"
    using m1 fresh_oid [OF assms(1)] by (simp add: fun_eq_iff)
  finally show ?thesis
    using del cast_oid_truthy [OF c] j by (simp add: issue_delete_def)
qed

theorem post_then_delete_witness:
  "store_inv test_store \<and> next_oid test_store < 2 ^ 96
   \<and> issue_post 2000 ''apitest'' test_post_every_field test_store
     = (IssueCreated (issue_json_of (next_oid test_store, demo_issue\<lparr>created_on := 2000, updated_on := 2000\<rparr>)),
        snd (store_insert (demo_issue\<lparr>created_on := 2000, updated_on := 2000\<rparr>) test_store))
   \<and> (\<exists>s2. issue_delete ''other'' [(''_id'', JStr (oid_hex (next_oid test_store)))]
          (snd (store_insert (demo_issue\<lparr>created_on := 2000, updated_on := 2000\<rparr>) test_store))
        = (ResultId ''successfully deleted'' (JStr (oid_hex (next_oid test_store))), s2)
      \<and> store_map s2 = store_map test_store)"
proof -
  have inv: "store_inv test_store" by (simp add: store_inv_def test_store_def)
  have b: "next_oid test_store < 2 ^ 96" by (simp add: test_store_def)
  have h: "issue_post 2000 ''apitest'' test_post_every_field test_store
     = (IssueCreated (issue_json_of (next_oid test_store, demo_issue\<lparr>created_on := 2000, updated_on := 2000\<rparr>)),
        snd (store_insert (demo_issue\<lparr>created_on := 2000, updated_on := 2000\<rparr>) test_store))"
    by (simp add: issue_post_def Let_def new_issue_def js_or_def test_post_every_field_def demo_issue_def
        store_insert_def)
  show ?thesis using inv b h post_then_delete [OF inv b h, of "''other''"] by simp
qed

text \<open>C26. A successful PUT answers with the stored identifier in lower-case hex, not
  with the \<^verbatim>\<open>_id\<close> as sent: a client that sends upper-case digits gets them back in
  lower case.\<close>

theorem issue_put_response_id:
  assumes "obj_wf body" and "obj_get body ''_id'' = JStr str" and "cast_oid (JStr str) = Some i"
    and "(k, v) \<in> set body" and "k \<noteq> ''_id''" and "js_truthy v"
    and "store_map s i = Some d" and "cast_update (put_patch now proj body) = Inr us"
  shows "fst (issue_put now proj body s) = ResultId ''successfully updated'' (JStr (map hex_lower str))"
proof -
  have c: "cast_oid (obj_get body ''_id'') = Some i" using assms(2,3) by simp
  show ?thesis
    using issue_put_success [OF assms(1) c assms(4-8)] cast_oid_print [OF assms(3)] by simp
qed

text \<open>C27. A request that fails leaves the store as it was: whenever the answer is an
  \<^verbatim>\<open>{error: ...}\<close> payload or no answer at all, nothing was written.\<close>

theorem handle_failure_frame: "is_failure (fst (handle now r s)) \<Longrightarrow> snd (handle now r s) = s"
  by (cases r)
    (auto simp: issue_post_def issue_put_def issue_delete_def Let_def store_find_by_id_and_update_def
      store_find_by_id_and_delete_def split: if_splits option.splits sum.splits prod.splits)

theorem issue_put_response_id_witness:
  "fst (issue_put 3000 ''apitest'' [(''_id'', JStr ''63DD624C3E7E112E07A5D032''), (''status_text'', JStr ''Test complete'')]
      test_store)
   = ResultId ''successfully updated'' (JStr ''63dd624c3e7e112e07a5d032'')"
proof -
  have wf: "obj_wf [(''_id'', JStr ''63DD624C3E7E112E07A5D032''), (''status_text'', JStr ''Test complete'')]"
    by (simp add: obj_wf_def)
  have c: "cast_oid (JStr ''63DD624C3E7E112E07A5D032'') = Some 30906652776818921245331804210"
    by (simp add: cast_oid_def hex_val_def)
  have u: "cast_update (put_patch 3000 ''apitest''
      [(''_id'', JStr ''63DD624C3E7E112E07A5D032''), (''status_text'', JStr ''Test complete'')])
      = Inr [(''status_text'', FStr ''Test complete''), (''project'', FStr ''apitest''), (''updated_on'', FDate 3000)]"
    by (simp add: put_patch_def strip_falsy_def obj_keys_def obj_set_def obj_has_def schema_path_def
        max_time_def obj_delete_def)
  have l: "map hex_lower ''63DD624C3E7E112E07A5D032'' = ''63dd624c3e7e112e07a5d032''"
    by (simp add: hex_lower_def char_of_eq_iff)
  show ?thesis
    using issue_put_response_id [OF wf _ c _ _ _ test_store_lookup(1) u, of "''status_text''" "JStr ''Test complete''"] l
    by simp
qed

theorem handle_failure_frame_witness:
  "is_failure (fst (handle 3000 (Put ''apitest'' test_put_no_fields) test_store))
   \<and> snd (handle 3000 (Put ''apitest'' test_put_no_fields) test_store) = test_store"
proof -
  have f: "is_failure (fst (handle 3000 (Put ''apitest'' test_put_no_fields) test_store))"
    by (simp add: issue_put_def strip_falsy_def obj_keys_def test_put_no_fields_def)
  show ?thesis using f handle_failure_frame [OF f] by simp
qed

lemma filter_id_distinct:
  "distinct (map fst ds) \<Longrightarrow>
   filter (\<lambda>jd. fst jd = i \<and> P (snd jd)) ds =
     (case map_of ds i of None \<Rightarrow> [] | Some d \<Rightarrow> if P d then [(i, d)] else [])"
  by (induction ds) (auto simp: filter_empty_conv split: option.split intro: rev_image_eqI)

text \<open>C32. A GET filtered by a well-formed \<^verbatim>\<open>_id\<close> answers that one issue when it
  belongs to the path's project, and \<^verbatim>\<open>'No issues found'\<close> when there is no such
  issue or it belongs to another project: the path segment scopes a lookup by
  identifier too.\<close>

theorem issue_get_by_id:
  assumes "store_inv s" and "cast_oid v = Some i"
  shows "issue_get proj [(''_id'', v)] s =
    (case store_map s i of
       None \<Rightarrow> NoIssuesFound
     | Some d \<Rightarrow> if project d = proj then IssueList [issue_json_of (i, d)] else NoIssuesFound)"
proof -
  have "cast_filter (obj_set ''project'' (JStr proj) [(''_id'', v)])
      = Inr [CondId i, CondPath ''project'' (FStr proj)]"
    using assms(2) by (simp add: obj_set_def obj_has_def schema_path_def)
  moreover have "distinct (map fst (docs s))" using assms(1) by (simp add: store_inv_def)
  ultimately show ?thesis
    using filter_id_distinct [of "docs s" i "\<lambda>d. project d = proj"]
    by (auto simp: issue_get_def store_find_def store_map_def get_field_def split: option.split)
qed

theorem issue_get_by_id_witness:
  "store_inv test_store
   \<and> cast_oid (JStr ''63dd624c3e7e112e07a5d032'') = Some 30906652776818921245331804210
   \<and> issue_get ''apitest'' [(''_id'', JStr ''63dd624c3e7e112e07a5d032'')] test_store
       = IssueList [issue_json_of (30906652776818921245331804210, demo_issue)]
   \<and> issue_get ''other'' [(''_id'', JStr ''63dd624c3e7e112e07a5d032'')] test_store = NoIssuesFound"
proof -
  have inv: "store_inv test_store" by (simp add: store_inv_def test_store_def)
  show ?thesis
    using issue_get_by_id [OF inv test_ids(1), of "''apitest''"] issue_get_by_id [OF inv test_ids(1), of "''other''"]
      inv test_ids(1) test_store_lookup(1) by (simp add: demo_issue_def)
qed

text \<open>C33. The error taxonomy is complete: on every well-formed request each handler
  either answers with one of the payloads the specification's interface table lists
  for its method, echoing the \<^verbatim>\<open>_id\<close> as sent where the table does, or (after a
  store error) does not answer at all.\<close>

theorem handle_spec_shapes:
  assumes "request_wf r"
  shows "fst (handle now r s) = NoResponse \<or> spec_shape r (fst (handle now r s))"
proof (cases r)
  case (Get proj q)
  then show ?thesis by (simp add: issue_get_def split: sum.split)
next
  case (Post proj b)
  then show ?thesis by (simp add: issue_post_def Let_def store_insert_def split: option.split)
next
  case (Put proj b)
  with assms have wf: "obj_wf b" by simp
  have "js_truthy (obj_get b ''_id'') \<Longrightarrow> obj_get (strip_falsy b) ''_id'' = obj_get b ''_id''"
    using wf by (simp add: strip_falsy_filter obj_get_filter_truthy)
  with Put put_patch_id [OF wf] show ?thesis
    by (auto simp: issue_put_def Let_def split: sum.split option.split prod.split)
next
  case (Delete proj b)
  then show ?thesis by (auto simp: issue_delete_def Let_def split: sum.split option.split prod.split)
qed

theorem handle_spec_shapes_witness:
  "request_wf (Delete ''apitest'' test_delete_invalid_id)
   \<and> spec_shape (Delete ''apitest'' test_delete_invalid_id)
       (fst (handle 0 (Delete ''apitest'' test_delete_invalid_id) test_store))"
proof -
  have wf: "request_wf (Delete ''apitest'' test_delete_invalid_id)"
    by (simp add: test_delete_invalid_id_def obj_wf_def)
  have "fst (handle 0 (Delete ''apitest'' test_delete_invalid_id) test_store)
      = ErrorId ''could not delete'' (JStr ''63dd4614fd4ca8d1372cf3b5'')"
    by (simp add: issue_delete_def test_delete_invalid_id_def store_find_by_id_and_delete_def test_ids(3)
        test_store_def)
  then show ?thesis using handle_spec_shapes [OF wf, of 0 test_store] wf by auto
qed

end
